theory Spec2Isabelle
  imports Complex_Main
begin

section \<open>JavaScript numbers\<close>

text \<open>
  Every quantity of the simulator is a JavaScript number, an IEEE-754 double. A number
  is a finite value (\<open>Fin 0\<close> is \<open>+0\<close>), the negative zero, one of the two
  infinities, or NaN. The result of an arithmetic operation on finite values is the exact
  real result rounded to the nearest double, ties to the even significand (\<open>fl\<close>): it
  is an infinity when the magnitude reaches \<open>2^1024 - 2^970\<close>, and a zero with the sign
  of the exact result when it rounds to zero. A decimal literal of the source that is not
  a double, such as \<open>0.1\<close>, denotes \<open>fl (1/10)\<close>. The operations take doubles to
  doubles; the general theorems below hold for every value of the type and do not depend
  on their arguments being doubles, and every concrete trace starts from doubles.
\<close>

datatype jsnum = Fin real | NZero | PInf | NInf | NaN

text \<open>Rounding a real to the nearest integer, ties to the even one.\<close>

definition round_even :: "real \<Rightarrow> int" where
  "round_even q =
     (let f = \<lfloor>q\<rfloor>; d = q - of_int f
      in if d < 1/2 then f else if 1/2 < d then f + 1 else if even f then f else f + 1)"

text \<open>
  The exponent of the unit in the last place of \<open>x\<close>: 53 significant bits, and the
  subnormal spacing \<open>2^-1074\<close> below \<open>2^-1022\<close>.
\<close>

definition ulp_exp :: "real \<Rightarrow> int" where
  "ulp_exp x = max \<lfloor>log 2 \<bar>x\<bar>\<rfloor> (- 1022) - 52"

definition nearest :: "real \<Rightarrow> real" where
  "nearest x = (if x = 0 then 0
                else of_int (round_even (x / 2 powi ulp_exp x)) * 2 powi ulp_exp x)"

definition fl :: "real \<Rightarrow> jsnum" where
  "fl x = (if 2 ^ 1024 - 2 ^ 970 \<le> \<bar>x\<bar> then (if 0 < x then PInf else NInf)
           else if nearest x = 0 \<and> x < 0 then NZero
           else Fin (nearest x))"

instantiation jsnum :: "{plus,minus,uminus,times,inverse,abs,ord}"
begin

fun plus_jsnum :: "jsnum \<Rightarrow> jsnum \<Rightarrow> jsnum" where
  "plus_jsnum NaN _ = NaN"
| "plus_jsnum _ NaN = NaN"
| "plus_jsnum PInf NInf = NaN"
| "plus_jsnum NInf PInf = NaN"
| "plus_jsnum PInf _ = PInf"
| "plus_jsnum _ PInf = PInf"
| "plus_jsnum NInf _ = NInf"
| "plus_jsnum _ NInf = NInf"
| "plus_jsnum NZero NZero = NZero"
| "plus_jsnum NZero (Fin b) = Fin b"
| "plus_jsnum (Fin a) NZero = Fin a"
| "plus_jsnum (Fin a) (Fin b) = (if a + b = 0 then Fin 0 else fl (a + b))"

fun uminus_jsnum :: "jsnum \<Rightarrow> jsnum" where
  "uminus_jsnum (Fin a) = (if a = 0 then NZero else Fin (- a))"
| "uminus_jsnum NZero = Fin 0"
| "uminus_jsnum PInf = NInf"
| "uminus_jsnum NInf = PInf"
| "uminus_jsnum NaN = NaN"

definition minus_jsnum :: "jsnum \<Rightarrow> jsnum \<Rightarrow> jsnum" where
  "minus_jsnum a b = a + (- b)"

fun times_jsnum :: "jsnum \<Rightarrow> jsnum \<Rightarrow> jsnum" where
  "times_jsnum NaN _ = NaN"
| "times_jsnum _ NaN = NaN"
| "times_jsnum (Fin a) (Fin b) =
     (if a = 0 \<or> b = 0 then (if (a < 0) = (b < 0) then Fin 0 else NZero) else fl (a * b))"
| "times_jsnum (Fin a) NZero = (if a < 0 then Fin 0 else NZero)"
| "times_jsnum NZero (Fin b) = (if b < 0 then Fin 0 else NZero)"
| "times_jsnum NZero NZero = Fin 0"
| "times_jsnum (Fin a) PInf = (if a = 0 then NaN else if 0 < a then PInf else NInf)"
| "times_jsnum (Fin a) NInf = (if a = 0 then NaN else if 0 < a then NInf else PInf)"
| "times_jsnum PInf (Fin b) = (if b = 0 then NaN else if 0 < b then PInf else NInf)"
| "times_jsnum NInf (Fin b) = (if b = 0 then NaN else if 0 < b then NInf else PInf)"
| "times_jsnum NZero PInf = NaN"
| "times_jsnum NZero NInf = NaN"
| "times_jsnum PInf NZero = NaN"
| "times_jsnum NInf NZero = NaN"
| "times_jsnum PInf PInf = PInf"
| "times_jsnum PInf NInf = NInf"
| "times_jsnum NInf PInf = NInf"
| "times_jsnum NInf NInf = PInf"

fun divide_jsnum :: "jsnum \<Rightarrow> jsnum \<Rightarrow> jsnum" where
  "divide_jsnum NaN _ = NaN"
| "divide_jsnum _ NaN = NaN"
| "divide_jsnum (Fin a) (Fin b) =
     (if b = 0 then (if a = 0 then NaN else if 0 < a then PInf else NInf)
      else if a = 0 then (if b < 0 then NZero else Fin 0)
      else fl (a / b))"
| "divide_jsnum (Fin a) NZero = (if a = 0 then NaN else if 0 < a then NInf else PInf)"
| "divide_jsnum NZero (Fin b) = (if b = 0 then NaN else if b < 0 then Fin 0 else NZero)"
| "divide_jsnum NZero NZero = NaN"
| "divide_jsnum (Fin a) PInf = (if a < 0 then NZero else Fin 0)"
| "divide_jsnum (Fin a) NInf = (if a < 0 then Fin 0 else NZero)"
| "divide_jsnum NZero PInf = NZero"
| "divide_jsnum NZero NInf = Fin 0"
| "divide_jsnum PInf (Fin b) = (if b < 0 then NInf else PInf)"
| "divide_jsnum PInf NZero = NInf"
| "divide_jsnum NInf (Fin b) = (if b < 0 then PInf else NInf)"
| "divide_jsnum NInf NZero = PInf"
| "divide_jsnum _ _ = NaN"

definition inverse_jsnum :: "jsnum \<Rightarrow> jsnum" where
  "inverse_jsnum a = divide (Fin 1) a"

fun abs_jsnum :: "jsnum \<Rightarrow> jsnum" where
  "abs_jsnum (Fin a) = Fin \<bar>a\<bar>"
| "abs_jsnum NZero = Fin 0"
| "abs_jsnum PInf = PInf"
| "abs_jsnum NInf = PInf"
| "abs_jsnum NaN = NaN"

text \<open>The comparisons are false on NaN and take the two zeros as equal.\<close>

fun less_jsnum :: "jsnum \<Rightarrow> jsnum \<Rightarrow> bool" where
  "less_jsnum NaN _ = False"
| "less_jsnum _ NaN = False"
| "less_jsnum (Fin a) (Fin b) = (a < b)"
| "less_jsnum (Fin a) NZero = (a < 0)"
| "less_jsnum NZero (Fin b) = (0 < b)"
| "less_jsnum NZero NZero = False"
| "less_jsnum _ NInf = False"
| "less_jsnum NInf _ = True"
| "less_jsnum PInf _ = False"
| "less_jsnum _ PInf = True"

fun less_eq_jsnum :: "jsnum \<Rightarrow> jsnum \<Rightarrow> bool" where
  "less_eq_jsnum NaN _ = False"
| "less_eq_jsnum _ NaN = False"
| "less_eq_jsnum (Fin a) (Fin b) = (a \<le> b)"
| "less_eq_jsnum (Fin a) NZero = (a \<le> 0)"
| "less_eq_jsnum NZero (Fin b) = (0 \<le> b)"
| "less_eq_jsnum NZero NZero = True"
| "less_eq_jsnum NInf _ = True"
| "less_eq_jsnum _ PInf = True"
| "less_eq_jsnum _ _ = False"

instance ..

end

text \<open>
  \<open>Math.max\<close> and \<open>Math.min\<close> return NaN as soon as one argument is NaN, and order
  \<open>-0\<close> below \<open>+0\<close>.
\<close>

definition Math_max :: "jsnum \<Rightarrow> jsnum \<Rightarrow> jsnum" where
  "Math_max a b =
     (if a = NaN \<or> b = NaN then NaN
      else if a < b then b else if b < a then a
      else if a = NZero then b else a)"

definition Math_min :: "jsnum \<Rightarrow> jsnum \<Rightarrow> jsnum" where
  "Math_min a b =
     (if a = NaN \<or> b = NaN then NaN
      else if a < b then a else if b < a then b
      else if a = NZero then a else b)"

fun Math_sqrt :: "jsnum \<Rightarrow> jsnum" where
  "Math_sqrt (Fin a) = (if a < 0 then NaN else if a = 0 then Fin 0 else fl (sqrt a))"
| "Math_sqrt NZero = NZero"
| "Math_sqrt PInf = PInf"
| "Math_sqrt NInf = NaN"
| "Math_sqrt NaN = NaN"

text \<open>
  \<open>Math.sin\<close> is an approximation the engine chooses; it is taken here as the sine
  rounded to the nearest double.
\<close>

fun Math_sin :: "jsnum \<Rightarrow> jsnum" where
  "Math_sin (Fin a) = (if a = 0 then Fin 0 else fl (sin a))"
| "Math_sin NZero = NZero"
| "Math_sin _ = NaN"

fun Math_floor :: "jsnum \<Rightarrow> jsnum" where
  "Math_floor (Fin a) = Fin (of_int \<lfloor>a\<rfloor>)"
| "Math_floor x = x"

text \<open>
  The remainder \<open>a % b\<close> is exact and takes the sign of the dividend (truncated
  division), also when it is zero.
\<close>

definition trunc :: "real \<Rightarrow> int" where
  "trunc a = (if 0 \<le> a then \<lfloor>a\<rfloor> else \<lceil>a\<rceil>)"

fun js_rem :: "jsnum \<Rightarrow> jsnum \<Rightarrow> jsnum" where
  "js_rem (Fin a) (Fin b) =
     (if b = 0 then NaN
      else if a - b * of_int (trunc (a / b)) = 0 \<and> a < 0 then NZero
      else Fin (a - b * of_int (trunc (a / b))))"
| "js_rem (Fin a) PInf = Fin a"
| "js_rem (Fin a) NInf = Fin a"
| "js_rem NZero (Fin b) = (if b = 0 then NaN else NZero)"
| "js_rem NZero PInf = NZero"
| "js_rem NZero NInf = NZero"
| "js_rem _ _ = NaN"

text \<open>
  Strict equality \<open>===\<close> and inequality \<open>!==\<close> on numbers: NaN differs from
  everything, itself included, and the two zeros are equal.
\<close>

definition isZero :: "jsnum \<Rightarrow> bool" where
  "isZero a = (a = Fin 0 \<or> a = NZero)"

definition strict_eq :: "jsnum \<Rightarrow> jsnum \<Rightarrow> bool" where
  "strict_eq a b = (a \<noteq> NaN \<and> b \<noteq> NaN \<and> (a = b \<or> (isZero a \<and> isZero b)))"

definition strict_neq :: "jsnum \<Rightarrow> jsnum \<Rightarrow> bool" where
  "strict_neq a b = (\<not> strict_eq a b)"

text \<open>Truthiness of a number: the zeros and NaN are falsy.\<close>

definition falsy :: "jsnum \<Rightarrow> bool" where
  "falsy a = (isZero a \<or> a = NaN)"

text \<open>\<open>x || d\<close> and \<open>x ?? d\<close> on an optional numeric parameter (\<open>None\<close> is \<open>undefined\<close>).\<close>

definition or_default :: "jsnum option \<Rightarrow> jsnum \<Rightarrow> jsnum" where
  "or_default x d = (case x of None \<Rightarrow> d | Some v \<Rightarrow> if falsy v then d else v)"

definition nullish_default :: "jsnum option \<Rightarrow> jsnum \<Rightarrow> jsnum" where
  "nullish_default x d = (case x of None \<Rightarrow> d | Some v \<Rightarrow> v)"

definition or_default_str :: "string option \<Rightarrow> string \<Rightarrow> string" where
  "or_default_str x d = (case x of None \<Rightarrow> d | Some v \<Rightarrow> if v = [] then d else v)"

section \<open>The basic controller (pid-controller.js)\<close>

record PIDController =
  p_Kp :: jsnum
  p_Ki :: jsnum
  p_Kd :: jsnum
  p_proportionalTerm :: jsnum
  p_integralTerm :: jsnum
  p_derivativeTerm :: jsnum
  p_lastError :: jsnum
  p_lastProcessVariable :: jsnum
  p_outputMin :: jsnum
  p_outputMax :: jsnum
  p_alpha :: jsnum

record PIDOptions =
  po_outputMin :: "jsnum option"
  po_outputMax :: "jsnum option"
  po_alpha :: "jsnum option"

definition PIDController_new :: "jsnum \<Rightarrow> jsnum \<Rightarrow> jsnum \<Rightarrow> PIDOptions \<Rightarrow> PIDController" where
  "PIDController_new Kp Ki Kd options =
     \<lparr> p_Kp = Kp, p_Ki = Ki, p_Kd = Kd,
       p_proportionalTerm = Fin 0, p_integralTerm = Fin 0, p_derivativeTerm = Fin 0,
       p_lastError = Fin 0, p_lastProcessVariable = Fin 0,
       p_outputMin = nullish_default (po_outputMin options) (Fin (-100)),
       p_outputMax = nullish_default (po_outputMax options) (Fin 100),
       p_alpha = nullish_default (po_alpha options) (fl (1/10)) \<rparr>"

definition PID_update :: "PIDController \<Rightarrow> jsnum \<Rightarrow> jsnum \<Rightarrow> jsnum \<Rightarrow> jsnum \<times> PIDController" where
  "PID_update c setpoint processVariable deltaTime =
     (if deltaTime \<le> Fin 0
      then (p_proportionalTerm c + p_integralTerm c + p_derivativeTerm c, c)
      else
        let error = setpoint - processVariable;
            proportionalTerm = p_Kp c * error;
            pvDerivative = (processVariable - p_lastProcessVariable c) / deltaTime;
            derivativeTerm = (p_alpha c * pvDerivative) + (Fin 1 - p_alpha c) * p_derivativeTerm c;
            integralIncrement = p_Ki c * error * deltaTime;
            preOutput = proportionalTerm + p_integralTerm c + integralIncrement
                          - (p_Kd c * derivativeTerm);
            output = Math_max (p_outputMin c) (Math_min (p_outputMax c) preOutput);
            integralTerm1 = p_integralTerm c + (integralIncrement + (output - preOutput));
            integralTerm2 = Math_max (p_outputMin c) (Math_min (p_outputMax c) integralTerm1)
        in (output,
            c\<lparr> p_proportionalTerm := proportionalTerm,
               p_derivativeTerm := derivativeTerm,
               p_integralTerm := integralTerm2,
               p_lastError := error,
               p_lastProcessVariable := processVariable \<rparr>))"

definition PID_reset :: "PIDController \<Rightarrow> PIDController" where
  "PID_reset c = c\<lparr> p_integralTerm := Fin 0, p_lastError := Fin 0,
                     p_lastProcessVariable := Fin 0, p_derivativeTerm := Fin 0 \<rparr>"

section \<open>The advanced controller (advanced-pid.js)\<close>

record Config =
  outputMin :: jsnum
  outputMax :: jsnum
  derivativeFilter :: jsnum
  setpointWeightP :: jsnum
  setpointWeightD :: jsnum
  integralMode :: string
  antiWindupMethod :: string

record State =
  lastError :: jsnum
  lastPV :: jsnum
  integralSum :: jsnum
  derivativeFiltered :: jsnum
  lastOutput :: jsnum
  isManual :: bool
  manualOutput :: jsnum

record Terms =
  proportional :: jsnum
  integral :: jsnum
  derivative :: jsnum
  total_t :: jsnum

record Metrics =
  integralAbsoluteError :: jsnum
  integralSquaredError :: jsnum
  integralTimeAbsoluteError :: jsnum
  maxOutput :: jsnum
  outputVariability :: jsnum
  lastOutputs :: "jsnum list"

record AdvancedPIDController =
  Kp :: jsnum
  Ki :: jsnum
  Kd :: jsnum
  config :: Config
  state :: State
  terms :: Terms
  metrics :: Metrics
  simulationTime :: jsnum

record Options =
  o_outputMin :: "jsnum option"
  o_outputMax :: "jsnum option"
  o_derivativeFilter :: "jsnum option"
  o_setpointWeightP :: "jsnum option"
  o_setpointWeightD :: "jsnum option"
  o_integralMode :: "string option"
  o_antiWindupMethod :: "string option"

text \<open>
  The constructor: the gains default to \<open>1, 0, 0\<close> when omitted, and every option goes
  through \<open>||\<close>, so that an option given as \<open>0\<close> takes the default as well.
\<close>

definition AdvancedPIDController_new ::
    "jsnum option \<Rightarrow> jsnum option \<Rightarrow> jsnum option \<Rightarrow> Options \<Rightarrow> AdvancedPIDController" where
  "AdvancedPIDController_new Kp0 Ki0 Kd0 options =
     \<lparr> Kp = nullish_default Kp0 (Fin 1),
       Ki = nullish_default Ki0 (Fin 0),
       Kd = nullish_default Kd0 (Fin 0),
       config = \<lparr> outputMin = or_default (o_outputMin options) (Fin (-100)),
                  outputMax = or_default (o_outputMax options) (Fin 100),
                  derivativeFilter = or_default (o_derivativeFilter options) (fl (1/10)),
                  setpointWeightP = or_default (o_setpointWeightP options) (Fin 1),
                  setpointWeightD = or_default (o_setpointWeightD options) (Fin 0),
                  integralMode = or_default_str (o_integralMode options) ''standard'',
                  antiWindupMethod = or_default_str (o_antiWindupMethod options) ''clamping'' \<rparr>,
       state = \<lparr> lastError = Fin 0, lastPV = Fin 0, integralSum = Fin 0,
                 derivativeFiltered = Fin 0, lastOutput = Fin 0, isManual = False,
                 manualOutput = Fin 0 \<rparr>,
       terms = \<lparr> proportional = Fin 0, integral = Fin 0, derivative = Fin 0, total_t = Fin 0 \<rparr>,
       metrics = \<lparr> integralAbsoluteError = Fin 0, integralSquaredError = Fin 0,
                   integralTimeAbsoluteError = Fin 0, maxOutput = Fin 0,
                   outputVariability = Fin 0, lastOutputs = [] \<rparr>,
       simulationTime = Fin 0 \<rparr>"

text \<open>
  \<open>updateMetrics\<close>: the error integrals, the largest output magnitude and the mean
  absolute change over the last 50 outputs. It reads the simulation time that
  \<open>update\<close> has already advanced.
\<close>

definition updateMetrics :: "jsnum \<Rightarrow> Metrics \<Rightarrow> jsnum \<Rightarrow> jsnum \<Rightarrow> jsnum \<Rightarrow> Metrics" where
  "updateMetrics simTime m error output deltaTime =
     (let pushed = lastOutputs m @ [output];
          outs = (if length pushed > 50 then tl pushed else pushed);
          outputChanges = map (\<lambda>(val, prev). \<bar>val - prev\<bar>) (zip (tl outs) outs)
      in \<lparr> integralAbsoluteError = integralAbsoluteError m + \<bar>error\<bar> * deltaTime,
           integralSquaredError = integralSquaredError m + error * error * deltaTime,
           integralTimeAbsoluteError =
             integralTimeAbsoluteError m + simTime * \<bar>error\<bar> * deltaTime,
           maxOutput = Math_max (maxOutput m) \<bar>output\<bar>,
           outputVariability =
             (if length outs > 1
              then foldl (\<lambda>sum change. sum + change) (Fin 0) outputChanges
                     / Fin (real (length outputChanges))
              else outputVariability m),
           lastOutputs = outs \<rparr>)"

text \<open>
  The integral block: the accumulator advances by \<open>error * deltaTime\<close>; in conditional
  mode only when the last output is away from saturation or the step reduces the sum.
\<close>

definition integrate :: "Config \<Rightarrow> State \<Rightarrow> jsnum \<Rightarrow> jsnum \<Rightarrow> jsnum" where
  "integrate cfg st error deltaTime =
     (if integralMode cfg = ''conditional''
      then (let wouldSaturate = (\<bar>lastOutput st\<bar> \<ge> \<bar>outputMax cfg * fl (95/100)\<bar>)
            in if \<not> wouldSaturate \<or> error * integralSum st < Fin 0
               then integralSum st + error * deltaTime
               else integralSum st)
      else integralSum st + error * deltaTime)"

text \<open>
  The anti-windup block, from the accumulator, the integral term and the unsaturated
  sum to the new accumulator, integral term and output. The clamping branch divides by
  \<open>Ki\<close> with no test; the back-calculation branch tests \<open>Ki !== 0\<close>; with any other
  method name the sum is returned as it is.
\<close>

definition antiWindup ::
    "Config \<Rightarrow> jsnum \<Rightarrow> jsnum \<Rightarrow> jsnum \<Rightarrow> jsnum \<Rightarrow> jsnum \<Rightarrow> jsnum \<times> jsnum \<times> jsnum" where
  "antiWindup cfg Ki' integralSum' integral' output deltaTime =
     (if antiWindupMethod cfg = ''clamping''
      then (let saturatedOutput = Math_max (outputMin cfg) (Math_min (outputMax cfg) output)
            in if strict_neq saturatedOutput output
               then (let excessOutput = output - saturatedOutput;
                         integralSum2 = integralSum' - excessOutput / Ki'
                     in (integralSum2, Ki' * integralSum2, saturatedOutput))
               else (integralSum', integral', output))
      else if antiWindupMethod cfg = ''back-calculation''
      then (let saturatedOutput = Math_max (outputMin cfg) (Math_min (outputMax cfg) output)
            in if strict_neq saturatedOutput output \<and> strict_neq Ki' (Fin 0)
               then (let Tt = Fin 1;
                         backCalcError = (saturatedOutput - output) / Tt;
                         integralSum2 = integralSum' + backCalcError * deltaTime
                     in (integralSum2, Ki' * integralSum2, saturatedOutput))
               else (integralSum', integral', saturatedOutput))
      else (integralSum', integral', output))"

definition AdvancedPID_update ::
    "AdvancedPIDController \<Rightarrow> jsnum \<Rightarrow> jsnum \<Rightarrow> jsnum \<Rightarrow> jsnum \<times> AdvancedPIDController" where
  "AdvancedPID_update c0 setpoint processVariable deltaTime =
     (let c = c0\<lparr> simulationTime := simulationTime c0 + deltaTime \<rparr>;
          cfg = config c;
          st = state c
      in if deltaTime \<le> Fin 0 then (lastOutput st, c)
         else if isManual st
         then (manualOutput st, c\<lparr> state := st\<lparr> lastOutput := manualOutput st \<rparr> \<rparr>)
         else
           let error = setpoint - processVariable;
               proportionalError = (setpointWeightP cfg * setpoint) - processVariable;
               proportional' = Kp c * proportionalError;
               integralSum1 = integrate cfg st error deltaTime;
               integral1 = Ki c * integralSum1;
               pvDerivative = (processVariable - lastPV st) / deltaTime;
               alpha = derivativeFilter cfg;
               derivativeFiltered' = alpha * (- pvDerivative) + (Fin 1 - alpha) * derivativeFiltered st;
               derivativeSetpointEffect = setpointWeightD cfg * (setpoint - lastPV st) / deltaTime;
               derivative' = Kd c * (derivativeFiltered' + derivativeSetpointEffect);
               output0 = proportional' + integral1 + derivative';
               (integralSum2, integral2, output) =
                  antiWindup cfg (Ki c) integralSum1 integral1 output0 deltaTime
           in (output,
               c\<lparr> state := st\<lparr> lastError := error, lastPV := processVariable,
                                 integralSum := integralSum2,
                                 derivativeFiltered := derivativeFiltered',
                                 lastOutput := output \<rparr>,
                  terms := \<lparr> proportional = proportional', integral = integral2,
                             derivative = derivative', total_t = output \<rparr>,
                  metrics := updateMetrics (simulationTime c) (metrics c) error output deltaTime \<rparr>))"

definition setGains :: "AdvancedPIDController \<Rightarrow> jsnum \<Rightarrow> jsnum \<Rightarrow> jsnum \<Rightarrow> AdvancedPIDController" where
  "setGains c Kp' Ki' Kd' = c\<lparr> Kp := Kp', Ki := Ki', Kd := Kd' \<rparr>"

definition setOutputLimits :: "AdvancedPIDController \<Rightarrow> jsnum \<Rightarrow> jsnum \<Rightarrow> AdvancedPIDController" where
  "setOutputLimits c min' max' = c\<lparr> config := (config c)\<lparr> outputMin := min', outputMax := max' \<rparr> \<rparr>"

text \<open>
  \<open>setManualMode(isManual, manualOutput = 0)\<close>: the second argument is optional and
  defaults to \<open>0\<close>. The value captured on the transition to manual is overwritten by the
  last assignment, which runs whenever \<open>isManual\<close> is true.
\<close>

definition setManualMode ::
    "AdvancedPIDController \<Rightarrow> bool \<Rightarrow> jsnum option \<Rightarrow> AdvancedPIDController" where
  "setManualMode c isManual' manualOutputArg =
     (let manualOutput' = nullish_default manualOutputArg (Fin 0);
          st = state c;
          c1 = (if isManual' \<and> \<not> isManual st
                then c\<lparr> state := st\<lparr> manualOutput := lastOutput st \<rparr> \<rparr>
                else if \<not> isManual' \<and> isManual st
                then c\<lparr> state := st\<lparr> integralSum := manualOutput st / Ki c \<rparr>,
                        terms := (terms c)\<lparr> integral := manualOutput st \<rparr> \<rparr>
                else c);
          c2 = c1\<lparr> state := (state c1)\<lparr> isManual := isManual' \<rparr> \<rparr>
      in if isManual' then c2\<lparr> state := (state c2)\<lparr> manualOutput := manualOutput' \<rparr> \<rparr> else c2)"

text \<open>\<open>reset\<close> assigns every field of the state, the terms and the metrics, and the clock.\<close>

definition reset :: "AdvancedPIDController \<Rightarrow> AdvancedPIDController" where
  "reset c =
     c\<lparr> state := (state c)\<lparr> lastError := Fin 0, lastPV := Fin 0, integralSum := Fin 0,
                              derivativeFiltered := Fin 0, lastOutput := Fin 0,
                              isManual := False, manualOutput := Fin 0 \<rparr>,
        terms := (terms c)\<lparr> proportional := Fin 0, integral := Fin 0, derivative := Fin 0,
                              total_t := Fin 0 \<rparr>,
        metrics := (metrics c)\<lparr> integralAbsoluteError := Fin 0, integralSquaredError := Fin 0,
                                  integralTimeAbsoluteError := Fin 0, maxOutput := Fin 0,
                                  outputVariability := Fin 0, lastOutputs := [] \<rparr>,
        simulationTime := Fin 0 \<rparr>"

text \<open>A run: the controller is fed a sequence of \<open>(setpoint, pv, dt)\<close> calls.\<close>

fun run :: "AdvancedPIDController \<Rightarrow> (jsnum \<times> jsnum \<times> jsnum) list \<Rightarrow> jsnum list \<times> AdvancedPIDController" where
  "run c [] = ([], c)"
| "run c ((sp, pv, dt) # rest) =
     (let (out, c') = AdvancedPID_update c sp pv dt;
          (outs, c'') = run c' rest
      in (out # outs, c''))"

text \<open>The empty options object \<open>{}\<close>.\<close>

definition noOptions :: Options where
  "noOptions = \<lparr> o_outputMin = None, o_outputMax = None, o_derivativeFilter = None,
     o_setpointWeightP = None, o_setpointWeightD = None, o_integralMode = None,
     o_antiWindupMethod = None \<rparr>"

section \<open>The mechanical plant (plant-models.js)\<close>

text \<open>
  The fields keep the source's names behind a prefix for the class, since the five plants
  share field names. A truthy optional flag is \<open>Some True\<close>.
\<close>

record MechanicalState =
  position :: jsnum
  velocity :: jsnum

record SensorNoise =
  noise_enabled :: bool
  noise_amplitude :: jsnum

record DelayItem =
  item_value :: jsnum
  item_time :: jsnum

record SystemDelay =
  delay_enabled :: bool
  delay_time :: jsnum
  delay_buffer :: "DelayItem list"

record MechanicalSystem =
  me_inertia :: jsnum
  me_friction :: jsnum
  me_load :: jsnum
  me_state :: MechanicalState
  me_disturbance :: jsnum
  me_sensorNoise :: SensorNoise
  me_systemDelay :: SystemDelay
  me_simulationTime :: jsnum

record MechanicalSnapshot =
  snap_position :: jsnum
  snap_velocity :: jsnum
  snap_measuredPosition :: jsnum

definition MechanicalSystem_new ::
    "jsnum \<Rightarrow> jsnum \<Rightarrow> jsnum \<Rightarrow> bool option \<Rightarrow> jsnum option \<Rightarrow> bool option \<Rightarrow> jsnum option
       \<Rightarrow> bool option \<Rightarrow> jsnum option \<Rightarrow> MechanicalSystem" where
  "MechanicalSystem_new inertia friction load noiseEnabled noiseAmplitude delayEnabled delayTime
       autoEquilibrium initialPosition =
     \<lparr> me_inertia = inertia, me_friction = friction, me_load = load,
       me_state = \<lparr> position = (if autoEquilibrium = Some True
                                  then nullish_default initialPosition (Fin 0)
                                  else or_default initialPosition (Fin 0)),
                    velocity = Fin 0 \<rparr>,
       me_disturbance = Fin 0,
       me_sensorNoise = \<lparr> noise_enabled = (noiseEnabled = Some True),
                          noise_amplitude = or_default noiseAmplitude (Fin (1/2)) \<rparr>,
       me_systemDelay = \<lparr> delay_enabled = (delayEnabled = Some True),
                          delay_time = or_default delayTime (fl (1/10)),
                          delay_buffer = [] \<rparr>,
       me_simulationTime = Fin 0 \<rparr>"

text \<open>
  \<open>_applyDelay\<close>: the input is pushed with the current time, entries older than three
  delay times are dropped, and the buffer is scanned from its end for the first entry at
  or before \<open>now - delay\<close>; the input itself is the fallback.
\<close>

definition applyDelay :: "MechanicalSystem \<Rightarrow> jsnum \<Rightarrow> jsnum \<Rightarrow> jsnum \<times> MechanicalSystem" where
  "applyDelay p input dt =
     (let d = me_systemDelay p;
          pushed = delay_buffer d @ [\<lparr> item_value = input, item_time = me_simulationTime p \<rparr>];
          cutoffTime = me_simulationTime p - delay_time d * Fin 3;
          buffer = filter (\<lambda>item. item_time item > cutoffTime) pushed;
          targetTime = me_simulationTime p - delay_time d;
          output = (case find (\<lambda>item. item_time item \<le> targetTime) (rev buffer) of
                      None \<Rightarrow> input
                    | Some item \<Rightarrow> item_value item)
      in (output, p\<lparr> me_systemDelay := d\<lparr> delay_buffer := buffer \<rparr> \<rparr>))"

text \<open>\<open>_addSensorNoise\<close>; the value of \<open>Math.random()\<close> is the argument \<open>rnd\<close>.\<close>

definition addSensorNoise :: "MechanicalSystem \<Rightarrow> jsnum \<Rightarrow> jsnum \<Rightarrow> jsnum" where
  "addSensorNoise p rnd cleanSignal =
     (let sinusoidalNoise = Math_sin (me_simulationTime p * Fin 8) * fl (4/10)
                            + Math_sin (me_simulationTime p * fl (203/10)) * fl (15/100);
          randomNoise = (rnd - Fin (1/2)) * Fin (1/2);
          totalNoise = (sinusoidalNoise + randomNoise) * noise_amplitude (me_sensorNoise p)
      in cleanSignal + totalNoise)"

definition Mechanical_update ::
    "MechanicalSystem \<Rightarrow> jsnum \<Rightarrow> jsnum \<Rightarrow> jsnum \<Rightarrow> MechanicalSnapshot \<times> MechanicalSystem" where
  "Mechanical_update p0 controlOutput dt rnd =
     (let p1 = p0\<lparr> me_simulationTime := me_simulationTime p0 + dt \<rparr>;
          (actualOutput, p) = (if delay_enabled (me_systemDelay p1)
                               then applyDelay p1 controlOutput dt
                               else (controlOutput, p1));
          frictionForce = - me_friction p * velocity (me_state p);
          loadForce = - me_load p;
          netForce = actualOutput + me_disturbance p + frictionForce + loadForce;
          acceleration = netForce / me_inertia p;
          velocity' = velocity (me_state p) + acceleration * dt;
          position' = position (me_state p) + velocity' * dt;
          p' = p\<lparr> me_state := \<lparr> position = position', velocity = velocity' \<rparr> \<rparr>;
          measuredPosition = (if noise_enabled (me_sensorNoise p')
                              then addSensorNoise p' rnd position'
                              else position')
      in (\<lparr> snap_position = position', snap_velocity = velocity',
            snap_measuredPosition = measuredPosition \<rparr>, p'))"

definition Mechanical_setDisturbance :: "MechanicalSystem \<Rightarrow> jsnum \<Rightarrow> MechanicalSystem" where
  "Mechanical_setDisturbance p v = p\<lparr> me_disturbance := v \<rparr>"

definition Mechanical_reset :: "MechanicalSystem \<Rightarrow> MechanicalSystem" where
  "Mechanical_reset p =
     p\<lparr> me_state := (me_state p)\<lparr> velocity := Fin 0 \<rparr>,
        me_disturbance := Fin 0,
        me_systemDelay := (me_systemDelay p)\<lparr> delay_buffer := [] \<rparr>,
        me_simulationTime := Fin 0 \<rparr>"

section \<open>The industrial plants\<close>

subsection \<open>Thermal plant\<close>

record TemperatureState =
  temperature :: jsnum
  heatFlow :: jsnum

record TemperatureDisturbances =
  ambientTempChange :: jsnum
  doorOpening :: bool
  doorOpeningEffect :: jsnum

record TemperatureControlSystem =
  th_thermalCapacity :: jsnum
  th_thermalResistance :: jsnum
  th_ambientTemp :: jsnum
  th_maxHeatingPower :: jsnum
  th_timeConstant :: jsnum
  th_state :: TemperatureState
  th_disturbances :: TemperatureDisturbances
  th_simulationTime :: jsnum

record TemperatureSnapshot =
  th_processVariable :: jsnum
  th_actualOutput :: jsnum
  th_disturbanceEffect :: jsnum
  th_thermalLoss :: jsnum

definition TemperatureControlSystem_new ::
    "jsnum option \<Rightarrow> jsnum option \<Rightarrow> jsnum option \<Rightarrow> jsnum option \<Rightarrow> TemperatureControlSystem" where
  "TemperatureControlSystem_new thermalCapacity thermalResistance ambientTemp maxHeatingPower =
     \<lparr> th_thermalCapacity = or_default thermalCapacity (Fin 500),
       th_thermalResistance = or_default thermalResistance (fl (1/10)),
       th_ambientTemp = or_default ambientTemp (Fin 25),
       th_maxHeatingPower = or_default maxHeatingPower (Fin 2000),
       th_timeConstant = or_default thermalCapacity (Fin 500)
                           * or_default thermalResistance (fl (1/10)),
       th_state = \<lparr> temperature = or_default ambientTemp (Fin 25), heatFlow = Fin 0 \<rparr>,
       th_disturbances = \<lparr> ambientTempChange = Fin 0, doorOpening = False,
                           doorOpeningEffect = Fin (-50) \<rparr>,
       th_simulationTime = Fin 0 \<rparr>"

definition Temperature_update ::
    "TemperatureControlSystem \<Rightarrow> jsnum \<Rightarrow> jsnum \<Rightarrow> TemperatureSnapshot \<times> TemperatureControlSystem" where
  "Temperature_update p heatingPower dt =
     (let actualPower = Math_max (Fin 0) (Math_min (th_maxHeatingPower p) heatingPower);
          currentAmbient = th_ambientTemp p + ambientTempChange (th_disturbances p);
          thermalLoss = (temperature (th_state p) - currentAmbient) / th_thermalResistance p;
          doorEffect = (if doorOpening (th_disturbances p)
                        then doorOpeningEffect (th_disturbances p) else Fin 0);
          netHeatFlow = actualPower - thermalLoss + doorEffect;
          tempChange = netHeatFlow / th_thermalCapacity p
      in (\<lparr> th_processVariable = temperature (th_state p) + tempChange * dt,
            th_actualOutput = actualPower,
            th_disturbanceEffect = doorEffect,
            th_thermalLoss = thermalLoss \<rparr>,
          p\<lparr> th_simulationTime := th_simulationTime p + dt,
             th_state := \<lparr> temperature = temperature (th_state p) + tempChange * dt,
                           heatFlow = netHeatFlow \<rparr> \<rparr>))"

definition Temperature_reset :: "TemperatureControlSystem \<Rightarrow> TemperatureControlSystem" where
  "Temperature_reset p =
     p\<lparr> th_state := (th_state p)\<lparr> temperature := th_ambientTemp p, heatFlow := Fin 0 \<rparr>,
        th_disturbances := (th_disturbances p)\<lparr> ambientTempChange := Fin 0,
                                                 doorOpening := False \<rparr>,
        th_simulationTime := Fin 0 \<rparr>"

subsection \<open>Tank level plant\<close>

record TankState =
  level :: jsnum
  tk_inletFlow :: jsnum
  tk_outletFlow :: jsnum

record TankDisturbances =
  inletFlowVariation :: jsnum
  tk_leakage :: jsnum

record TankLevelSystem =
  tk_tankArea :: jsnum
  tk_maxOutletFlow :: jsnum
  tk_outletCoefficient :: jsnum
  tk_maxLevel :: jsnum
  tk_state :: TankState
  tk_disturbances :: TankDisturbances
  tk_simulationTime :: jsnum

record FlowSnapshot =
  processVariable :: jsnum
  actualOutput :: jsnum
  inletFlow :: jsnum
  outletFlow :: jsnum
  netFlow :: jsnum

definition TankLevelSystem_new ::
    "jsnum option \<Rightarrow> jsnum option \<Rightarrow> jsnum option \<Rightarrow> jsnum option \<Rightarrow> TankLevelSystem" where
  "TankLevelSystem_new tankArea maxOutletFlow outletCoefficient maxLevel =
     \<lparr> tk_tankArea = or_default tankArea (Fin 2),
       tk_maxOutletFlow = or_default maxOutletFlow (fl (5/100)),
       tk_outletCoefficient = or_default outletCoefficient (fl (1/10)),
       tk_maxLevel = or_default maxLevel (Fin 5),
       tk_state = \<lparr> level = Fin 1, tk_inletFlow = fl (2/100), tk_outletFlow = Fin 0 \<rparr>,
       tk_disturbances = \<lparr> inletFlowVariation = Fin 0, tk_leakage = Fin 0 \<rparr>,
       tk_simulationTime = Fin 0 \<rparr>"

definition Tank_update ::
    "TankLevelSystem \<Rightarrow> jsnum \<Rightarrow> jsnum \<Rightarrow> FlowSnapshot \<times> TankLevelSystem" where
  "Tank_update p valveOpening dt =
     (let actualValveOpening = Math_max (Fin 0) (Math_min (Fin 100) valveOpening) / Fin 100;
          pressureHead = Math_max (Fin 0) (level (tk_state p));
          outletFlow' = actualValveOpening * tk_maxOutletFlow p * Math_sqrt pressureHead;
          actualInletFlow = tk_inletFlow (tk_state p) + inletFlowVariation (tk_disturbances p);
          leakageFlow = tk_leakage (tk_disturbances p);
          netFlow' = actualInletFlow - outletFlow' - leakageFlow;
          levelChange = netFlow' / tk_tankArea p;
          level1 = level (tk_state p) + levelChange * dt;
          level2 = Math_max (Fin 0) (Math_min (tk_maxLevel p) level1)
      in (\<lparr> processVariable = level2,
            actualOutput = actualValveOpening * Fin 100,
            inletFlow = actualInletFlow,
            outletFlow = outletFlow',
            netFlow = netFlow' \<rparr>,
          p\<lparr> tk_simulationTime := tk_simulationTime p + dt,
             tk_state := (tk_state p)\<lparr> tk_outletFlow := outletFlow', level := level2 \<rparr> \<rparr>))"

definition Tank_reset :: "TankLevelSystem \<Rightarrow> TankLevelSystem" where
  "Tank_reset p =
     p\<lparr> tk_state := (tk_state p)\<lparr> level := Fin 1, tk_outletFlow := Fin 0 \<rparr>,
        tk_disturbances := (tk_disturbances p)\<lparr> inletFlowVariation := Fin 0,
                                                 tk_leakage := Fin 0 \<rparr>,
        tk_simulationTime := Fin 0 \<rparr>"

subsection \<open>Motor speed plant\<close>

record MotorState =
  angularVelocity :: jsnum
  rpm :: jsnum
  torque :: jsnum

record MotorDisturbances =
  loadTorque :: jsnum
  frictionVariation :: jsnum

record MotorSpeedSystem =
  mo_inertia :: jsnum
  mo_friction :: jsnum
  mo_torqueConstant :: jsnum
  mo_maxCurrent :: jsnum
  mo_gearRatio :: jsnum
  mo_state :: MotorState
  mo_disturbances :: MotorDisturbances
  mo_simulationTime :: jsnum

record MotorSnapshot =
  mo_processVariable :: jsnum
  mo_actualOutput :: jsnum
  mo_motorTorque :: jsnum
  mo_frictionTorque :: jsnum
  mo_loadTorque :: jsnum

definition Math_PI :: jsnum where
  "Math_PI = fl pi"

definition MotorSpeedSystem_new ::
    "jsnum option \<Rightarrow> jsnum option \<Rightarrow> jsnum option \<Rightarrow> jsnum option \<Rightarrow> jsnum option
       \<Rightarrow> MotorSpeedSystem" where
  "MotorSpeedSystem_new inertia friction torqueConstant maxCurrent gearRatio =
     \<lparr> mo_inertia = or_default inertia (fl (1/100)),
       mo_friction = or_default friction (fl (1/10)),
       mo_torqueConstant = or_default torqueConstant (Fin (1/2)),
       mo_maxCurrent = or_default maxCurrent (Fin 10),
       mo_gearRatio = or_default gearRatio (Fin 10),
       mo_state = \<lparr> angularVelocity = Fin 0, rpm = Fin 0, torque = Fin 0 \<rparr>,
       mo_disturbances = \<lparr> loadTorque = Fin 0, frictionVariation = Fin 1 \<rparr>,
       mo_simulationTime = Fin 0 \<rparr>"

definition Motor_update ::
    "MotorSpeedSystem \<Rightarrow> jsnum \<Rightarrow> jsnum \<Rightarrow> MotorSnapshot \<times> MotorSpeedSystem" where
  "Motor_update p currentCommand dt =
     (let actualCurrent = Math_max (- mo_maxCurrent p) (Math_min (mo_maxCurrent p) currentCommand);
          motorTorque = mo_torqueConstant p * actualCurrent;
          frictionTorque = mo_friction p * frictionVariation (mo_disturbances p)
                             * angularVelocity (mo_state p);
          loadTorque' = loadTorque (mo_disturbances p);
          netTorque = motorTorque - frictionTorque - loadTorque';
          acceleration = netTorque / mo_inertia p;
          angularVelocity' = angularVelocity (mo_state p) + acceleration * dt;
          rpm' = (angularVelocity' * Fin 60) / (Fin 2 * Math_PI) * mo_gearRatio p
      in (\<lparr> mo_processVariable = rpm',
            mo_actualOutput = actualCurrent,
            mo_motorTorque = motorTorque,
            mo_frictionTorque = frictionTorque,
            mo_loadTorque = loadTorque' \<rparr>,
          p\<lparr> mo_simulationTime := mo_simulationTime p + dt,
             mo_state := \<lparr> angularVelocity = angularVelocity', rpm = rpm',
                           torque = motorTorque \<rparr> \<rparr>))"

definition Motor_reset :: "MotorSpeedSystem \<Rightarrow> MotorSpeedSystem" where
  "Motor_reset p =
     p\<lparr> mo_state := (mo_state p)\<lparr> angularVelocity := Fin 0, rpm := Fin 0, torque := Fin 0 \<rparr>,
        mo_disturbances := (mo_disturbances p)\<lparr> loadTorque := Fin 0,
                                                 frictionVariation := Fin 1 \<rparr>,
        mo_simulationTime := Fin 0 \<rparr>"

subsection \<open>Pressure plant\<close>

record PressureState =
  pressure :: jsnum
  mass :: jsnum

record PressureDisturbances =
  outletFlowVariation :: jsnum
  pr_leakage :: jsnum
  temperatureChange :: jsnum

record PressureControlSystem =
  pr_volume :: jsnum
  pr_gasConstant :: jsnum
  pr_temperature :: jsnum
  pr_atmosphericPressure :: jsnum
  pr_maxInletFlow :: jsnum
  pr_outletCoefficient :: jsnum
  pr_state :: PressureState
  pr_disturbances :: PressureDisturbances
  pr_simulationTime :: jsnum

definition PressureControlSystem_new ::
    "jsnum option \<Rightarrow> jsnum option \<Rightarrow> jsnum option \<Rightarrow> jsnum option \<Rightarrow> PressureControlSystem" where
  "PressureControlSystem_new volume temperature' maxInletFlow outletCoefficient =
     (let volume' = or_default volume (fl (1/10));
          gasConstant = Fin 287;
          temperature'' = or_default temperature' (Fin 293);
          atmosphericPressure = Fin 101325;
          pressure' = atmosphericPressure + Fin 50000
      in \<lparr> pr_volume = volume',
           pr_gasConstant = gasConstant,
           pr_temperature = temperature'',
           pr_atmosphericPressure = atmosphericPressure,
           pr_maxInletFlow = or_default maxInletFlow (fl (1/100)),
           pr_outletCoefficient = or_default outletCoefficient (fl (1/10000)),
           pr_state = \<lparr> pressure = pressure',
                        mass = (pressure' * volume') / (gasConstant * temperature'') \<rparr>,
           pr_disturbances = \<lparr> outletFlowVariation = Fin 1, pr_leakage = Fin 0,
                               temperatureChange = Fin 0 \<rparr>,
           pr_simulationTime = Fin 0 \<rparr>)"

definition Pressure_update ::
    "PressureControlSystem \<Rightarrow> jsnum \<Rightarrow> jsnum \<Rightarrow> FlowSnapshot \<times> PressureControlSystem" where
  "Pressure_update p valveOpening dt =
     (let actualValveOpening = Math_max (Fin 0) (Math_min (Fin 100) valveOpening) / Fin 100;
          inletMassFlow = actualValveOpening * pr_maxInletFlow p;
          pressureDiff = Math_max (Fin 0) (pressure (pr_state p) - pr_atmosphericPressure p);
          outletMassFlow = pr_outletCoefficient p * outletFlowVariation (pr_disturbances p)
                             * Math_sqrt pressureDiff;
          leakageMassFlow = pr_leakage (pr_disturbances p);
          netMassFlow = inletMassFlow - outletMassFlow - leakageMassFlow;
          mass1 = mass (pr_state p) + netMassFlow * dt;
          mass2 = Math_max (fl (1/1000)) mass1;
          currentTemp = pr_temperature p + temperatureChange (pr_disturbances p);
          pressure' = (mass2 * pr_gasConstant p * currentTemp) / pr_volume p
      in (\<lparr> processVariable = (pressure' - pr_atmosphericPressure p) / Fin 1000,
            actualOutput = actualValveOpening * Fin 100,
            inletFlow = inletMassFlow,
            outletFlow = outletMassFlow,
            netFlow = netMassFlow \<rparr>,
          p\<lparr> pr_simulationTime := pr_simulationTime p + dt,
             pr_state := \<lparr> pressure = pressure', mass = mass2 \<rparr> \<rparr>))"

definition Pressure_reset :: "PressureControlSystem \<Rightarrow> PressureControlSystem" where
  "Pressure_reset p =
     (let pressure' = pr_atmosphericPressure p + Fin 50000
      in p\<lparr> pr_state := (pr_state p)\<lparr> pressure := pressure',
                 mass := (pressure' * pr_volume p) / (pr_gasConstant p * pr_temperature p) \<rparr>,
            pr_disturbances := (pr_disturbances p)\<lparr> outletFlowVariation := Fin 1,
                 pr_leakage := Fin 0, temperatureChange := Fin 0 \<rparr>,
            pr_simulationTime := Fin 0 \<rparr>)"

section \<open>The auto-tuner (runAutoTuneLogic and finishAutoTune of the simulation driver)\<close>

text \<open>
  The part of the application object the tuner reads and writes: the tuning flag, the
  tuning record, the setpoint, the controller, the rate-limiting flag and the
  process-variable series of the chart, which \<open>runAutoTuneLogic\<close> reads as its history.
  The texts written to the page are left out.
\<close>

record Peak =
  peak_value :: jsnum
  peak_time :: jsnum

record AutoTune =
  initialKp :: jsnum
  kpStep :: jsnum
  lastPeak :: Peak
  lastTrough :: Peak
  peaks :: "Peak list"
  oscillationPeriod :: jsnum
  ultimateGain :: jsnum

record SimulationApp =
  isAutoTuning :: bool
  autoTune :: AutoTune
  setpoint :: jsnum
  pid :: AdvancedPIDController
  kpIncreasedThisSecond :: bool
  pvHistory :: "jsnum list"

definition finishAutoTune :: "SimulationApp \<Rightarrow> SimulationApp" where
  "finishAutoTune app0 =
     (let app = app0\<lparr> isAutoTuning := False \<rparr>;
          Ku = ultimateGain (autoTune app);
          Tu = oscillationPeriod (autoTune app)
      in if Ku \<le> Fin 0 \<or> Tu \<le> Fin 0 then app
         else
           let Kp' = fl (6/10) * Ku;
               Ki' = (fl (12/10) * Ku) / Tu;
               Kd' = (fl (6/10) * Ku * Tu) / Fin 8
           in app\<lparr> pid := setGains (pid app) Kp' Ki' Kd' \<rparr>)"

text \<open>
  The last block of \<open>runAutoTuneLogic\<close>: when the whole second of the simulation time is
  a positive multiple of five and the flag is down, \<open>Kp\<close> grows by the step.
\<close>

definition increaseKp :: "SimulationApp \<Rightarrow> jsnum \<Rightarrow> SimulationApp" where
  "increaseKp app currentTime =
     (if strict_eq (js_rem (Math_floor currentTime) (Fin 5)) (Fin 0)
         \<and> Math_floor currentTime > Fin 0 \<and> \<not> kpIncreasedThisSecond app
      then (let newKp = Kp (pid app) + kpStep (autoTune app)
            in app\<lparr> pid := setGains (pid app) newKp (Fin 0) (Fin 0),
                    kpIncreasedThisSecond := True \<rparr>)
      else if strict_neq (js_rem (Math_floor currentTime) (Fin 5)) (Fin 0)
      then app\<lparr> kpIncreasedThisSecond := False \<rparr>
      else app)"

definition runAutoTuneLogic :: "SimulationApp \<Rightarrow> jsnum \<Rightarrow> jsnum \<Rightarrow> SimulationApp" where
  "runAutoTuneLogic app pv currentTime =
     (let history = pvHistory app
      in if length history < 3 then app
         else
           let prevPv = history ! (length history - 2)
           in if pv < prevPv \<and> prevPv > history ! (length history - 3)
              then
                if prevPv > peak_value (lastPeak (autoTune app))
                then
                  let newPeak = \<lparr> peak_value = prevPv, peak_time = currentTime \<rparr>;
                      pushed = peaks (autoTune app) @ [newPeak];
                      app1 = app\<lparr> autoTune := (autoTune app)\<lparr> lastPeak := newPeak,
                                                                peaks := pushed \<rparr> \<rparr>
                  in if length pushed > 4
                     then
                       let kept = tl pushed;
                           app2 = app1\<lparr> autoTune := (autoTune app1)\<lparr> peaks := kept \<rparr> \<rparr>;
                           firstPeak = kept ! 0;
                           lastPeak' = kept ! 3
                       in if \<bar>peak_value lastPeak' - peak_value firstPeak\<bar> < setpoint app * fl (5/100)
                          then finishAutoTune
                                 (app2\<lparr> autoTune := (autoTune app2)\<lparr>
                                    ultimateGain := Kp (pid app2),
                                    oscillationPeriod :=
                                      (peak_time lastPeak' - peak_time firstPeak)
                                        / Fin (real (length kept) - 1) \<rparr> \<rparr>)
                          else increaseKp app2 currentTime
                     else increaseKp app1 currentTime
                else increaseKp app currentTime
              else increaseKp app currentTime)"

text \<open>
  A tuning session in progress: four peaks recorded, \<open>Kp = 3\<close>, setpoint \<open>200\<close>, and a
  chart series whose last but one sample is a local maximum.
\<close>

definition tuneApp :: SimulationApp where
  "tuneApp = \<lparr> isAutoTuning = True,
      autoTune = \<lparr> initialKp = Fin (1/2), kpStep = fl (2/10),
                   lastPeak = \<lparr> peak_value = Fin 9, peak_time = Fin 6 \<rparr>,
                   lastTrough = \<lparr> peak_value = PInf, peak_time = Fin 0 \<rparr>,
                   peaks = [\<lparr> peak_value = Fin 6, peak_time = Fin 1 \<rparr>,
                            \<lparr> peak_value = Fin 7, peak_time = Fin 2 \<rparr>,
                            \<lparr> peak_value = Fin 8, peak_time = Fin 4 \<rparr>,
                            \<lparr> peak_value = Fin 9, peak_time = Fin 6 \<rparr>],
                   oscillationPeriod = Fin 0, ultimateGain = Fin 0 \<rparr>,
      setpoint = Fin 200,
      pid = setGains (AdvancedPIDController_new None None None noOptions) (Fin 3) (Fin 0) (Fin 0),
      kpIncreasedThisSecond = False,
      pvHistory = [Fin 0, Fin 10, Fin 5] \<rparr>"

section \<open>Rounding to the nearest double\<close>

lemma round_even_of_int [simp]: "round_even (of_int k) = k"
  by (simp add: round_even_def)

lemma round_even_ge: "of_int N \<le> q \<Longrightarrow> N \<le> round_even q"
  unfolding round_even_def Let_def by (auto simp: le_floor_iff) linarith+

lemma round_even_le:
  assumes "q \<le> of_int N"
  shows "round_even q \<le> N"
proof (cases "q = of_int N")
  case True
  then show ?thesis by simp
next
  case False
  with assms have "q < of_int N" by simp
  then have "\<lfloor>q\<rfloor> < N" by (simp add: floor_less_iff)
  then show ?thesis
    unfolding round_even_def Let_def by auto
qed

text \<open>The floor of the binary logarithm brackets a positive real between powers of two.\<close>

lemma floor_log2_bounds:
  assumes "0 < x"
  shows "2 powi \<lfloor>log 2 x\<rfloor> \<le> x \<and> x < 2 powi (\<lfloor>log 2 x\<rfloor> + 1)"
proof -
  have "2 powr (of_int \<lfloor>log 2 x\<rfloor>) \<le> x \<and> x < 2 powr (of_int \<lfloor>log 2 x\<rfloor> + 1)"
    using floor_log_eq_powr_iff [of x 2 "\<lfloor>log 2 x\<rfloor>"] assms by simp
  moreover have "(2::real) powr (of_int \<lfloor>log 2 x\<rfloor>) = 2 powi \<lfloor>log 2 x\<rfloor>"
    by (simp add: powr_real_of_int')
  moreover have "(2::real) powr (of_int \<lfloor>log 2 x\<rfloor> + 1) = 2 powi (\<lfloor>log 2 x\<rfloor> + 1)"
    using powr_real_of_int' [of 2 "\<lfloor>log 2 x\<rfloor> + 1"] by simp
  ultimately show ?thesis by simp
qed

lemma floor_log2_ge:
  assumes "0 < x" and "2 powi k \<le> x"
  shows "k \<le> \<lfloor>log 2 x\<rfloor>"
proof (rule ccontr)
  assume "\<not> k \<le> \<lfloor>log 2 x\<rfloor>"
  then have "\<lfloor>log 2 x\<rfloor> + 1 \<le> k" by simp
  then have "(2::real) powi (\<lfloor>log 2 x\<rfloor> + 1) \<le> 2 powi k"
    by (intro power_int_increasing) simp_all
  with floor_log2_bounds [OF assms(1)] assms(2) show False by simp
qed

lemma floor_log2_le:
  assumes "0 < x" and "x \<le> 2 powi k"
  shows "\<lfloor>log 2 x\<rfloor> \<le> k"
proof (rule ccontr)
  assume "\<not> \<lfloor>log 2 x\<rfloor> \<le> k"
  then have "k + 1 \<le> \<lfloor>log 2 x\<rfloor>" by simp
  then have "(2::real) powi (k + 1) \<le> 2 powi \<lfloor>log 2 x\<rfloor>"
    by (intro power_int_increasing) simp_all
  moreover have "(2::real) powi k < 2 powi (k + 1)"
    by (intro power_int_strict_increasing) simp_all
  ultimately show False
    using floor_log2_bounds [OF assms(1)] assms(2) by simp
qed

lemma floor_log2_less:
  assumes "0 < x" and "x < 2 powi k"
  shows "\<lfloor>log 2 x\<rfloor> < k"
proof (rule ccontr)
  assume "\<not> \<lfloor>log 2 x\<rfloor> < k"
  then have "k \<le> \<lfloor>log 2 x\<rfloor>" by simp
  then have "(2::real) powi k \<le> 2 powi \<lfloor>log 2 x\<rfloor>"
    by (intro power_int_increasing) simp_all
  then show False
    using floor_log2_bounds [OF assms(1)] assms(2) by simp
qed

lemma pow2_quotient: "(2::real) powi a / 2 powi b = 2 powi (a - b)"
  by (simp add: power_int_diff)

lemma pow2_int:
  assumes "0 \<le> k"
  shows "(2::real) powi k = of_int (2 ^ nat k)"
  using assms by (simp add: power_int_def)

text \<open>Lower and upper bounds by a power of two survive rounding.\<close>

lemma pow2_nat_times:
  assumes "0 \<le> j"
  shows "(of_int (2 ^ nat j) :: real) * 2 powi e = 2 powi (j + e)"
proof -
  have "(2::real) powi (j + e) = 2 powi j * 2 powi e"
    by (rule power_int_add) simp
  then show ?thesis
    using pow2_int [OF assms] by simp
qed

lemma pow2_le_scaled:
  assumes "2 powi k \<le> (x::real)" and "e \<le> k"
  shows "of_int (2 ^ nat (k - e)) \<le> x / 2 powi e"
proof -
  have "2 powi k / 2 powi e \<le> x / 2 powi e"
    using assms(1) by (simp add: divide_right_mono)
  then have "(2::real) powi (k - e) \<le> x / 2 powi e"
    by (simp add: pow2_quotient)
  then show ?thesis
    using pow2_int [of "k - e"] assms(2) by simp
qed

lemma pow2_ge_scaled:
  assumes "(x::real) \<le> 2 powi k" and "e \<le> k"
  shows "x / 2 powi e \<le> of_int (2 ^ nat (k - e))"
proof -
  have "x / 2 powi e \<le> 2 powi k / 2 powi e"
    using assms(1) by (simp add: divide_right_mono)
  then have "x / 2 powi e \<le> (2::real) powi (k - e)"
    by (simp add: pow2_quotient)
  then show ?thesis
    using pow2_int [of "k - e"] assms(2) by simp
qed

lemma ulp_exp_le:
  assumes "0 < x" and "x \<le> 2 powi k" and "- 1074 \<le> k"
  shows "ulp_exp x \<le> k"
  using floor_log2_le [OF assms(1,2)] assms(1,3) by (simp add: ulp_exp_def)

lemma nearest_scaled:
  assumes "x \<noteq> 0"
  shows "nearest x = of_int (round_even (x / 2 powi ulp_exp x)) * 2 powi ulp_exp x"
  using assms by (simp add: nearest_def)

lemma nearest_le_pow2:
  assumes "0 < x" and "x \<le> 2 powi k" and "- 1074 \<le> k"
  shows "nearest x \<le> 2 powi k"
proof -
  let ?e = "ulp_exp x"
  have ek: "?e \<le> k" using assms by (rule ulp_exp_le)
  have "x / 2 powi ?e \<le> of_int (2 ^ nat (k - ?e))"
    using assms(2) ek by (rule pow2_ge_scaled)
  then have "round_even (x / 2 powi ?e) \<le> 2 ^ nat (k - ?e)"
    by (rule round_even_le)
  then have "(of_int (round_even (x / 2 powi ?e)) :: real) \<le> of_int (2 ^ nat (k - ?e))"
    by (simp only: of_int_le_iff)
  then have "nearest x \<le> of_int (2 ^ nat (k - ?e)) * 2 powi ?e"
    unfolding nearest_scaled [OF less_imp_neq [OF assms(1), symmetric]]
    by (intro mult_right_mono) simp_all
  also have "\<dots> = 2 powi k"
    using pow2_nat_times [of "k - ?e" ?e] ek by simp
  finally show ?thesis .
qed

lemma nearest_ge_pow2:
  assumes "2 powi k \<le> x" and "- 1074 \<le> k"
  shows "2 powi k \<le> nearest x"
proof -
  have "(0::real) < 2 powi k" by simp
  with assms(1) have xpos: "0 < x" by linarith
  let ?L = "\<lfloor>log 2 x\<rfloor>"
  let ?e = "ulp_exp x"
  have kL: "k \<le> ?L" using floor_log2_ge [OF xpos assms(1)] .
  have e: "?e = max ?L (- 1022) - 52" using xpos by (simp add: ulp_exp_def)
  define j where "j = max k (?L)"
  have jL: "j = ?L" using kL by (simp add: j_def)
  have xj: "2 powi j \<le> x"
    unfolding jL using floor_log2_bounds [OF xpos] by simp
  have ej: "?e \<le> j" using e jL assms(2) kL by simp
  have "of_int (2 ^ nat (j - ?e)) \<le> x / 2 powi ?e"
    using xj ej by (rule pow2_le_scaled)
  then have "2 ^ nat (j - ?e) \<le> round_even (x / 2 powi ?e)"
    by (rule round_even_ge)
  then have "(of_int (2 ^ nat (j - ?e)) :: real) \<le> of_int (round_even (x / 2 powi ?e))"
    by (simp only: of_int_le_iff)
  then have "of_int (2 ^ nat (j - ?e)) * 2 powi ?e \<le> nearest x"
    unfolding nearest_scaled [OF less_imp_neq [OF xpos, symmetric]]
    by (intro mult_right_mono) simp_all
  moreover have "(of_int (2 ^ nat (j - ?e)) :: real) * 2 powi ?e = 2 powi j"
    using pow2_nat_times [of "j - ?e" ?e] ej by simp
  moreover have "(2::real) powi k \<le> 2 powi j"
    unfolding jL using kL by (intro power_int_increasing) simp_all
  ultimately show ?thesis by simp
qed

text \<open>Integers up to \<open>2^53\<close> in magnitude are doubles.\<close>

lemma nearest_of_int:
  assumes "\<bar>n\<bar> \<le> 2 ^ 53"
  shows "nearest (of_int n) = of_int n"
proof (cases "n = 0")
  case True
  then show ?thesis by (simp add: nearest_def)
next
  case False
  let ?x = "of_int n :: real"
  let ?e = "ulp_exp ?x"
  have apos: "0 < \<bar>?x\<bar>" using False by simp
  have "\<bar>?x\<bar> \<le> of_int (2 ^ 53)"
    using assms by (simp only: of_int_abs [symmetric] of_int_le_iff)
  then have x53: "\<bar>?x\<bar> \<le> 2 powi 53"
    using pow2_int [of 53] by simp
  have L: "\<lfloor>log 2 \<bar>?x\<bar>\<rfloor> \<le> 53"
    using apos x53 by (rule floor_log2_le)
  have "(1::real) \<le> \<bar>?x\<bar>" using False by (simp flip: of_int_abs)
  then have x0: "2 powi 0 \<le> \<bar>?x\<bar>" by simp
  have L0: "0 \<le> \<lfloor>log 2 \<bar>?x\<bar>\<rfloor>"
    using apos x0 by (rule floor_log2_ge)
  have e: "?e = \<lfloor>log 2 \<bar>?x\<bar>\<rfloor> - 52"
    using L0 by (simp add: ulp_exp_def)
  show ?thesis
  proof (cases "?e \<le> 0")
    case True
    have "?x / 2 powi ?e = ?x * 2 powi (- ?e)"
      by (simp add: power_int_minus field_simps)
    also have "\<dots> = ?x * of_int (2 ^ nat (- ?e))"
      using pow2_int [of "- ?e"] True by simp
    also have "\<dots> = of_int (n * 2 ^ nat (- ?e))" by simp
    finally have q: "?x / 2 powi ?e = of_int (n * 2 ^ nat (- ?e))" .
    have "nearest ?x = of_int (n * 2 ^ nat (- ?e)) * 2 powi ?e"
      unfolding nearest_scaled [of ?x, simplified, OF False] q round_even_of_int ..
    also have "\<dots> = ?x * (of_int (2 ^ nat (- ?e)) * 2 powi ?e)" by simp
    also have "of_int (2 ^ nat (- ?e)) * 2 powi ?e = (2::real) powi (- ?e + ?e)"
      using True by (intro pow2_nat_times) simp
    finally show ?thesis by simp
  next
    case False
    then have e1: "?e = 1" using e L by linarith
    then have "\<lfloor>log 2 \<bar>?x\<bar>\<rfloor> = 53" using e by linarith
    then have "2 powi 53 \<le> \<bar>?x\<bar>"
      using floor_log2_bounds [OF apos] by simp
    with x53 have "\<bar>?x\<bar> = 2 powi 53" by simp
    then have "\<bar>?x\<bar> = of_int (2 ^ 53)" using pow2_int [of 53] by simp
    then have "\<bar>n\<bar> = 2 ^ 53" by (simp only: of_int_abs [symmetric] of_int_eq_iff)
    then consider "n = 2 ^ 53" | "n = - (2 ^ 53)" by linarith
    then show ?thesis
    proof cases
      case 1
      have "?x / 2 powi ?e = of_int (2 ^ 52)"
        using e1 by (simp add: 1)
      then show ?thesis
        unfolding nearest_scaled [of ?x, simplified, OF \<open>n \<noteq> 0\<close>]
        using e1 by (simp only: round_even_of_int) (simp add: 1)
    next
      case 2
      have "?x / 2 powi ?e = of_int (- (2 ^ 52))"
        using e1 by (simp add: 2)
      then show ?thesis
        unfolding nearest_scaled [of ?x, simplified, OF \<open>n \<noteq> 0\<close>]
        using e1 by (simp only: round_even_of_int) (simp add: 2)
    qed
  qed
qed

section \<open>Numbers: small integers, bounds by powers of two, NaN and saturation\<close>

text \<open>
  Integers up to \<open>2^53\<close> in magnitude are doubles: rounding leaves them as they are.
\<close>

lemma fl_of_int:
  assumes "\<bar>n\<bar> \<le> 2 ^ 53"
  shows "fl (of_int n) = Fin (of_int n)"
proof -
  have r: "nearest (of_int n) = of_int n"
    using assms by (rule nearest_of_int)
  have "\<bar>of_int n :: real\<bar> \<le> of_int (2 ^ 53)"
    using assms by (simp only: of_int_abs [symmetric] of_int_le_iff)
  also have "\<dots> < 2 ^ 1024 - 2 ^ 970" by simp
  finally have "\<not> 2 ^ 1024 - 2 ^ 970 \<le> \<bar>of_int n :: real\<bar>" by simp
  then show ?thesis
    unfolding fl_def r by auto
qed

lemma fl_numeral [simp]:
  "numeral k \<le> (9007199254740992::int) \<Longrightarrow> fl (numeral k) = Fin (numeral k)"
  using fl_of_int [of "numeral k"] by simp

lemma fl_neg_numeral [simp]:
  "numeral k \<le> (9007199254740992::int) \<Longrightarrow> fl (- numeral k) = Fin (- numeral k)"
  using fl_of_int [of "- numeral k"] by simp

lemma fl_one [simp]: "fl 1 = Fin 1"
  using fl_of_int [of 1] by simp

lemma fl_neg_one [simp]: "fl (- 1) = Fin (- 1)"
  using fl_of_int [of "- 1"] by simp

text \<open>
  A positive real between two powers of two of the double range rounds to a finite
  double between the same two powers; a real at or above \<open>2^1024 - 2^970\<close> rounds to
  \<open>Infinity\<close>.
\<close>

lemma fl_between:
  assumes "2 powi k \<le> x" and "x \<le> 2 powi j" and "- 1074 \<le> k" and "j \<le> 1023"
  shows "fl x = Fin (nearest x) \<and> 2 powi k \<le> nearest x \<and> nearest x \<le> 2 powi j"
proof -
  have "(0::real) < 2 powi k" by simp
  with assms(1) have xpos: "0 < x" by linarith
  have kj: "k \<le> j"
  proof (rule ccontr)
    assume "\<not> k \<le> j"
    then have "(2::real) powi j < 2 powi k"
      by (intro power_int_strict_increasing) simp_all
    with assms(1,2) show False by simp
  qed
  have lo: "2 powi k \<le> nearest x"
    using assms(1,3) by (rule nearest_ge_pow2)
  have hi: "nearest x \<le> 2 powi j"
    using xpos assms(2) by (rule nearest_le_pow2) (use kj assms(3) in simp)
  have "(2::real) powi j \<le> 2 powi 1023"
    using assms(4) by (intro power_int_increasing) simp_all
  also have "\<dots> = 2 ^ 1023" by (simp add: power_int_def)
  also have "\<dots> < (2::real) ^ 1024 - 2 ^ 970" by simp
  finally have "\<not> 2 ^ 1024 - 2 ^ 970 \<le> \<bar>x\<bar>"
    using assms(2) xpos by simp
  then have "fl x = Fin (nearest x)"
    using xpos by (simp add: fl_def)
  with lo hi show ?thesis by simp
qed

lemma fl_overflow:
  assumes "2 ^ 1024 - 2 ^ 970 \<le> x"
  shows "fl x = PInf"
proof -
  have "(0::real) < 2 ^ 1024 - 2 ^ 970" by simp
  with assms have "0 < x" by linarith
  with assms show ?thesis by (simp add: fl_def)
qed

text \<open>
NaN is absorbing for the arithmetic operations.
\<close>

lemma plus_NaN_right [simp]: "x + NaN = NaN"
  by (cases x) simp_all

lemma times_NaN_right [simp]: "x * NaN = NaN"
  by (cases x) simp_all

lemma divide_NaN_right [simp]: "x / NaN = NaN"
  by (cases x) simp_all

lemma minus_NaN_right [simp]: "x - NaN = NaN"
  by (simp add: minus_jsnum_def)

lemma minus_NaN_left [simp]: "NaN - x = NaN"
  by (simp add: minus_jsnum_def)

text \<open>
  The saturation \<open>Math.max(lo, Math.min(hi, x))\<close> passes NaN through, and lands in
  \<open>[lo, hi]\<close> for every other \<open>x\<close> when \<open>lo \<le> hi\<close>. Both facts rest on the comparisons
  only, not on any rounding.
\<close>

lemma saturate_NaN: "Math_max lo (Math_min hi NaN) = NaN"
  by (simp add: Math_max_def Math_min_def)

lemma saturate_range:
  assumes "lo \<le> hi" and "x \<noteq> NaN"
  shows "lo \<le> Math_max lo (Math_min hi x) \<and> Math_max lo (Math_min hi x) \<le> hi"
  using assms by (cases lo; cases hi; cases x) (auto simp: Math_max_def Math_min_def)

lemma saturate_NaN_or_range:
  assumes "lo \<le> hi"
  shows "Math_max lo (Math_min hi x) = NaN \<or>
         (lo \<le> Math_max lo (Math_min hi x) \<and> Math_max lo (Math_min hi x) \<le> hi)"
  using saturate_range [OF assms] saturate_NaN by (cases "x = NaN") auto


lemma saturate_idem:
  "Math_max lo (Math_min hi (Math_max lo (Math_min hi x))) = Math_max lo (Math_min hi x)"
  by (cases lo; cases hi; cases x) (auto simp: Math_max_def Math_min_def)

lemma neg_le_self: "Fin 0 \<le> m \<Longrightarrow> - m \<le> m"
  by (cases m) auto

subsection \<open>Decimal literals of the source\<close>

text \<open>
  The literals \<open>0.1\<close>, \<open>0.2\<close>, \<open>0.05\<close> and \<open>0.02\<close> are not doubles. Their roundings
  are finite and positive, which is all the traces below need of them.
\<close>

lemma tenth:
  "fl (1/10) = Fin (nearest (1/10))" "1/16 \<le> nearest (1/10)" "nearest (1/10) \<le> 1/8"
  using fl_between [of "-4" "1/10" "-3"] by (simp_all add: power_int_minus)

lemma tenth_sign [simp]:
  "0 < nearest (1/10)" "nearest (1/10) \<noteq> 0" "\<not> nearest (1/10) < 0" "nearest (1/10) \<noteq> 1"
  "nearest (1/10) < 1"
  using tenth(2,3) by simp_all

lemma one_minus_tenth:
  "fl (1 - nearest (1/10)) = Fin (nearest (1 - nearest (1/10)))"
  "1/2 \<le> nearest (1 - nearest (1/10))"
  using fl_between [of "-1" "1 - nearest (1/10)" "0"] tenth(2,3) by (simp_all add: power_int_minus)

lemma one_minus_tenth_sign [simp]:
  "0 < nearest (1 - nearest (1/10))" "nearest (1 - nearest (1/10)) \<noteq> 0"
  "\<not> nearest (1 - nearest (1/10)) < 0"
  using one_minus_tenth(2) by simp_all

lemma fifth:
  "fl (1/5) = Fin (nearest (1/5))" "1/8 \<le> nearest (1/5)" "nearest (1/5) \<le> 1/4"
  using fl_between [of "-3" "1/5" "-2"] by (simp_all add: power_int_minus)

lemma fifth_sign [simp]:
  "0 < nearest (1/5)" "nearest (1/5) \<noteq> 0" "\<not> nearest (1/5) < 0"
  using fifth(2,3) by simp_all

lemma twentieth:
  "fl (1/20) = Fin (nearest (1/20))" "1/32 \<le> nearest (1/20)" "nearest (1/20) \<le> 1/16"
  using fl_between [of "-5" "1/20" "-4"] by (simp_all add: power_int_minus)

lemma fiftieth:
  "fl (1/50) = Fin (nearest (1/50))" "1/64 \<le> nearest (1/50)" "nearest (1/50) \<le> 1/32"
  using fl_between [of "-6" "1/50" "-5"] by (simp_all add: power_int_minus)

lemmas controller_defs =
  AdvancedPIDController_new_def AdvancedPID_update_def integrate_def antiWindup_def
  updateMetrics_def setManualMode_def reset_def noOptions_def nullish_default_def
  or_default_def or_default_str_def falsy_def isZero_def strict_neq_def strict_eq_def
  Math_max_def Math_min_def minus_jsnum_def Let_def tenth(1) one_minus_tenth(1)

lemmas plant_defs =
  MechanicalSystem_new_def Mechanical_update_def Mechanical_reset_def applyDelay_def
  TemperatureControlSystem_new_def Temperature_update_def Temperature_reset_def
  TankLevelSystem_new_def Tank_update_def Tank_reset_def
  MotorSpeedSystem_new_def Motor_update_def Motor_reset_def
  PressureControlSystem_new_def Pressure_update_def Pressure_reset_def
  nullish_default_def or_default_def falsy_def isZero_def Math_max_def Math_min_def
  minus_jsnum_def Let_def fifth(1)

section \<open>The controllers: output limits\<close>








section \<open>The advanced controller: clamping anti-windup\<close>

text \<open>
  What the clamping branch computes: on saturation the excess over the saturated output,
  divided by \<open>Ki\<close>, leaves the accumulator and the integral term is recomputed from it;
  without saturation nothing changes. The division is there for every \<open>Ki\<close>.
\<close>

lemma antiWindup_clamping_saturated:
  assumes "antiWindupMethod cfg = ''clamping''"
    and "strict_neq (Math_max (outputMin cfg) (Math_min (outputMax cfg) out0)) out0"
  shows "antiWindup cfg Ki' s i out0 deltaTime =
           (s - (out0 - Math_max (outputMin cfg) (Math_min (outputMax cfg) out0)) / Ki',
            Ki' * (s - (out0 - Math_max (outputMin cfg) (Math_min (outputMax cfg) out0)) / Ki'),
            Math_max (outputMin cfg) (Math_min (outputMax cfg) out0))"
  using assms by (simp add: antiWindup_def Let_def)

lemma antiWindup_clamping_unsaturated:
  assumes "antiWindupMethod cfg = ''clamping''"
    and "\<not> strict_neq (Math_max (outputMin cfg) (Math_min (outputMax cfg) out0)) out0"
  shows "antiWindup cfg Ki' s i out0 deltaTime = (s, i, out0)"
  using assms by (simp add: antiWindup_def Let_def)

text \<open>
  Claim C3 asks for the division to be skipped when \<open>Ki\<close> is zero, leaving the integral
  term as it was. The code divides: on the default controller (\<open>Kp = 1\<close>, \<open>Ki = 0\<close>,
  clamping, limits \<open>\<plusminus>100\<close>) the call \<open>update(200, 0, 1)\<close> saturates at \<open>100\<close>, the
  accumulator becomes \<open>200 - 100/0 = -Infinity\<close> and the integral term
  \<open>0 * -Infinity = NaN\<close>, where it was \<open>0\<close> before the call.
\<close>

theorem clamping_zero_Ki_failing_input:
  "fst (AdvancedPID_update (AdvancedPIDController_new None None None noOptions)
          (Fin 200) (Fin 0) (Fin 1)) = Fin 100 \<and>
   integralSum (state (snd (AdvancedPID_update (AdvancedPIDController_new None None None noOptions)
          (Fin 200) (Fin 0) (Fin 1)))) = NInf \<and>
   integral (terms (snd (AdvancedPID_update (AdvancedPIDController_new None None None noOptions)
          (Fin 200) (Fin 0) (Fin 1)))) = NaN"
  by (simp add: controller_defs)

section \<open>The advanced controller: reset and determinism\<close>

text \<open>
  \<open>reset\<close> leaves the gains and the configuration alone and puts every other field
  back to the value the constructor gives it.
\<close>

lemma reset_eq_new:
  assumes "Kp c = Kp (AdvancedPIDController_new kp ki kd opts)"
    and "Ki c = Ki (AdvancedPIDController_new kp ki kd opts)"
    and "Kd c = Kd (AdvancedPIDController_new kp ki kd opts)"
    and "config c = config (AdvancedPIDController_new kp ki kd opts)"
  shows "reset c = AdvancedPIDController_new kp ki kd opts"
  using assms by (cases c) (simp add: reset_def AdvancedPIDController_new_def)

text \<open>
  Claim C8. \<open>update\<close> reads nothing but the controller and its three arguments, so two
  controllers in the same state return the same outputs on the same calls. A controller
  with any history, once reset, is in the state of a freshly constructed controller with
  the same gains and configuration: fed the same sequence of \<open>(setpoint, pv, dt)\<close>
  calls, the two return the same sequence of outputs.
\<close>

theorem reset_reproduces_fresh_outputs:
  assumes "Kp c = Kp (AdvancedPIDController_new kp ki kd opts)"
    and "Ki c = Ki (AdvancedPIDController_new kp ki kd opts)"
    and "Kd c = Kd (AdvancedPIDController_new kp ki kd opts)"
    and "config c = config (AdvancedPIDController_new kp ki kd opts)"
  shows "fst (run (reset c) xs) = fst (run (AdvancedPIDController_new kp ki kd opts) xs)"
  using reset_eq_new [OF assms] by simp

text \<open>
  The theorem on a controller with \<open>Kp = 2\<close>, \<open>Ki = 1\<close> that has run one tick: its
  accumulator holds \<open>10\<close>, and after \<open>reset\<close> it answers \<open>update(10, 0, 1)\<close> with
  \<open>30\<close>, as a fresh controller does.
\<close>

theorem reset_reproduces_fresh_outputs_witness:
  "Kp (snd (AdvancedPID_update (AdvancedPIDController_new (Some (Fin 2)) (Some (Fin 1)) None noOptions)
           (Fin 10) (Fin 0) (Fin 1)))
     = Kp (AdvancedPIDController_new (Some (Fin 2)) (Some (Fin 1)) None noOptions) \<and>
   config (snd (AdvancedPID_update (AdvancedPIDController_new (Some (Fin 2)) (Some (Fin 1)) None noOptions)
           (Fin 10) (Fin 0) (Fin 1)))
     = config (AdvancedPIDController_new (Some (Fin 2)) (Some (Fin 1)) None noOptions) \<and>
   integralSum (state (snd (AdvancedPID_update
       (AdvancedPIDController_new (Some (Fin 2)) (Some (Fin 1)) None noOptions)
           (Fin 10) (Fin 0) (Fin 1)))) = Fin 10 \<and>
   fst (run (reset (snd (AdvancedPID_update
       (AdvancedPIDController_new (Some (Fin 2)) (Some (Fin 1)) None noOptions)
           (Fin 10) (Fin 0) (Fin 1)))) [(Fin 10, Fin 0, Fin 1)])
     = fst (run (AdvancedPIDController_new (Some (Fin 2)) (Some (Fin 1)) None noOptions)
           [(Fin 10, Fin 0, Fin 1)]) \<and>
   fst (run (AdvancedPIDController_new (Some (Fin 2)) (Some (Fin 1)) None noOptions)
           [(Fin 10, Fin 0, Fin 1)]) = [Fin 30]"
proof -
  let ?f = "AdvancedPIDController_new (Some (Fin 2)) (Some (Fin 1)) None noOptions"
  let ?c = "snd (AdvancedPID_update ?f (Fin 10) (Fin 0) (Fin 1))"
  have g: "Kp ?c = Kp ?f" "Ki ?c = Ki ?f" "Kd ?c = Kd ?f" "config ?c = config ?f"
    by (simp_all add: controller_defs)
  have u: "integralSum (state ?c) = Fin 10"
    by (simp add: controller_defs)
  have v: "fst (run ?f [(Fin 10, Fin 0, Fin 1)]) = [Fin 30]"
    by (simp add: controller_defs)
  from reset_reproduces_fresh_outputs [OF g, of "[(Fin 10, Fin 0, Fin 1)]"] g u v
  show ?thesis by simp
qed

section \<open>The advanced controller: manual and automatic mode\<close>

text \<open>
  The transition to automatic sets the accumulator to \<open>manualOutput / Ki\<close>, computed
  as a double, and the integral term to the manual output. The transition to manual
  leaves the manual value at the second argument, \<open>0\<close> when it is omitted.
\<close>

lemma setManualMode_auto_reconstructs_integral:
  assumes "isManual (state c)"
  shows "\<not> isManual (state (setManualMode c False arg)) \<and>
         integralSum (state (setManualMode c False arg)) = manualOutput (state c) / Ki c \<and>
         integral (terms (setManualMode c False arg)) = manualOutput (state c)"
  using assms by (simp add: setManualMode_def Let_def)

lemma setManualMode_manual_argument:
  "manualOutput (state (setManualMode c True arg)) = nullish_default arg (Fin 0) \<and>
   isManual (state (setManualMode c True arg))"
  by (simp add: setManualMode_def Let_def)

text \<open>
  Claim C4 on a concrete controller (\<open>Kp = Ki = 1\<close>, \<open>Kd = 0\<close>, defaults otherwise).
  After \<open>update(10, 0, 1)\<close> the last automatic output is \<open>20\<close>. Then
  \<open>setManualMode(true)\<close> leaves the manual value at \<open>0\<close>, not at \<open>20\<close>: the value
  captured on the transition is overwritten by the default argument. With the manual
  value given as \<open>20\<close>, a manual tick returns \<open>20\<close>; after \<open>setManualMode(false)\<close> the
  accumulator is \<open>20\<close>, and the next tick, with the same setpoint and process variable,
  returns \<open>40\<close>: the proportional term and the newly integrated error come on top of
  the reconstructed integral term.
\<close>

theorem bumpless_transfer_failing_input:
  "lastOutput (state (snd (AdvancedPID_update
      (AdvancedPIDController_new (Some (Fin 1)) (Some (Fin 1)) None noOptions)
      (Fin 10) (Fin 0) (Fin 1)))) = Fin 20 \<and>
   manualOutput (state (setManualMode (snd (AdvancedPID_update
      (AdvancedPIDController_new (Some (Fin 1)) (Some (Fin 1)) None noOptions)
      (Fin 10) (Fin 0) (Fin 1))) True None)) = Fin 0 \<and>
   fst (AdvancedPID_update (setManualMode (snd (AdvancedPID_update
      (AdvancedPIDController_new (Some (Fin 1)) (Some (Fin 1)) None noOptions)
      (Fin 10) (Fin 0) (Fin 1))) True (Some (Fin 20))) (Fin 10) (Fin 0) (Fin 1)) = Fin 20 \<and>
   integralSum (state (setManualMode (snd (AdvancedPID_update (setManualMode
      (snd (AdvancedPID_update
        (AdvancedPIDController_new (Some (Fin 1)) (Some (Fin 1)) None noOptions)
        (Fin 10) (Fin 0) (Fin 1))) True (Some (Fin 20))) (Fin 10) (Fin 0) (Fin 1)))
      False None)) = Fin 20 \<and>
   fst (AdvancedPID_update (setManualMode (snd (AdvancedPID_update (setManualMode
      (snd (AdvancedPID_update
        (AdvancedPIDController_new (Some (Fin 1)) (Some (Fin 1)) None noOptions)
        (Fin 10) (Fin 0) (Fin 1))) True (Some (Fin 20))) (Fin 10) (Fin 0) (Fin 1)))
      False None) (Fin 10) (Fin 0) (Fin 1)) = Fin 40"
  by (simp add: controller_defs)

section \<open>The advanced controller: a non-positive time step\<close>

text \<open>
  Claim C2, the part the controller keeps. A call of \<open>update\<close> with \<open>dt \<le> 0\<close> returns
  the stored last output and leaves the state, the terms, the metrics, the gains and the
  configuration as they were.
\<close>

theorem update_invalid_timestep:
  assumes "deltaTime \<le> Fin 0"
  shows "fst (AdvancedPID_update c sp pv deltaTime) = lastOutput (state c) \<and>
         state (snd (AdvancedPID_update c sp pv deltaTime)) = state c \<and>
         terms (snd (AdvancedPID_update c sp pv deltaTime)) = terms c \<and>
         metrics (snd (AdvancedPID_update c sp pv deltaTime)) = metrics c \<and>
         config (snd (AdvancedPID_update c sp pv deltaTime)) = config c \<and>
         Kp (snd (AdvancedPID_update c sp pv deltaTime)) = Kp c \<and>
         Ki (snd (AdvancedPID_update c sp pv deltaTime)) = Ki c \<and>
         Kd (snd (AdvancedPID_update c sp pv deltaTime)) = Kd c"
  using assms by (simp add: AdvancedPID_update_def Let_def)

text \<open>
  The theorem on a controller that has run one tick and returned \<open>20\<close>: a call with
  \<open>dt = -1\<close> returns \<open>20\<close> and leaves the state alone.
\<close>

theorem update_invalid_timestep_witness:
  "Fin (-1) \<le> Fin 0 \<and>
   fst (AdvancedPID_update (snd (AdvancedPID_update
          (AdvancedPIDController_new (Some (Fin 1)) (Some (Fin 1)) None noOptions)
          (Fin 10) (Fin 0) (Fin 1))) (Fin 50) (Fin 5) (Fin (-1))) = Fin 20 \<and>
   state (snd (AdvancedPID_update (snd (AdvancedPID_update
          (AdvancedPIDController_new (Some (Fin 1)) (Some (Fin 1)) None noOptions)
          (Fin 10) (Fin 0) (Fin 1))) (Fin 50) (Fin 5) (Fin (-1))))
     = state (snd (AdvancedPID_update
          (AdvancedPIDController_new (Some (Fin 1)) (Some (Fin 1)) None noOptions)
          (Fin 10) (Fin 0) (Fin 1)))"
proof -
  let ?c = "snd (AdvancedPID_update
          (AdvancedPIDController_new (Some (Fin 1)) (Some (Fin 1)) None noOptions)
          (Fin 10) (Fin 0) (Fin 1))"
  have h: "Fin (-1) \<le> Fin 0" by simp
  have l: "lastOutput (state ?c) = Fin 20"
    by (simp add: controller_defs)
  from update_invalid_timestep [OF h, of ?c "Fin 50" "Fin 5"] l h
  show ?thesis by simp
qed

text \<open>
  Claim C2 as written fails for the plants and for the controller's clock. No plant
  tests \<open>dt\<close>: the mechanical plant stepped with \<open>dt = -1\<close> integrates backwards, its
  velocity going from \<open>0\<close> to \<open>-80\<close>. The controller advances its simulation time
  before it tests \<open>dt\<close>, so a call with \<open>dt = -1\<close> moves the clock from \<open>0\<close> to \<open>-1\<close>.
\<close>

theorem invalid_timestep_counterexample:
  "Fin (-1) \<le> Fin 0 \<and>
   velocity (me_state
      (MechanicalSystem_new (Fin 1) (fl (2/10)) (Fin 20) None None None None None None)) = Fin 0 \<and>
   velocity (me_state (snd (Mechanical_update
      (MechanicalSystem_new (Fin 1) (fl (2/10)) (Fin 20) None None None None None None)
      (Fin 100) (Fin (-1)) (Fin 0)))) = Fin (-80) \<and>
   simulationTime (AdvancedPIDController_new None None None noOptions) = Fin 0 \<and>
   simulationTime (snd (AdvancedPID_update (AdvancedPIDController_new None None None noOptions)
      (Fin 50) (Fin 0) (Fin (-1)))) = Fin (-1)"
  by (simp add: plant_defs controller_defs)

section \<open>The plants: saturation of the manipulated input\<close>

text \<open>
  Claim C5, for the four industrial plants and a command \<open>u\<close> that is a number. The
  value that enters the balance is the saturation \<open>Math.max(lo, Math.min(hi, u))\<close>
  itself, and it lies in the physical range: \<open>[0, maxHeatingPower]\<close> for the heating
  power, \<open>[0, 100]\<close> for the two valve openings, \<open>[-maxCurrent, maxCurrent]\<close> for the
  motor current. The thermal plant reports the saturated power and its heat flow is that
  power minus the loss plus the door effect; the tank's outlet flow is the hundredth of
  the saturated opening times the largest outlet flow times the root of the head; the
  motor reports the saturated current and its torque is the torque constant times that
  current; the pressure plant's inlet flow is the hundredth of the saturated opening
  times the largest inlet flow. The stored temperature, level, angular velocity and gas
  mass are integrated from these flows, so the command reaches the state through its
  saturation only.
\<close>

theorem industrial_plant_inputs_saturated:
  assumes "u \<noteq> NaN" and "Fin 0 \<le> th_maxHeatingPower th" and "Fin 0 \<le> mo_maxCurrent mo"
  shows
    "Fin 0 \<le> Math_max (Fin 0) (Math_min (th_maxHeatingPower th) u) \<and>
     Math_max (Fin 0) (Math_min (th_maxHeatingPower th) u) \<le> th_maxHeatingPower th \<and>
     th_actualOutput (fst (Temperature_update th u dt))
       = Math_max (Fin 0) (Math_min (th_maxHeatingPower th) u) \<and>
     heatFlow (th_state (snd (Temperature_update th u dt)))
       = Math_max (Fin 0) (Math_min (th_maxHeatingPower th) u)
         - (temperature (th_state th) - (th_ambientTemp th + ambientTempChange (th_disturbances th)))
             / th_thermalResistance th
         + (if doorOpening (th_disturbances th) then doorOpeningEffect (th_disturbances th)
            else Fin 0) \<and>
     temperature (th_state (snd (Temperature_update th u dt)))
       = temperature (th_state th)
         + heatFlow (th_state (snd (Temperature_update th u dt))) / th_thermalCapacity th * dt \<and>
     Fin 0 \<le> Math_max (Fin 0) (Math_min (Fin 100) u) \<and>
     Math_max (Fin 0) (Math_min (Fin 100) u) \<le> Fin 100 \<and>
     outletFlow (fst (Tank_update tk u dt))
       = Math_max (Fin 0) (Math_min (Fin 100) u) / Fin 100 * tk_maxOutletFlow tk
         * Math_sqrt (Math_max (Fin 0) (level (tk_state tk))) \<and>
     netFlow (fst (Tank_update tk u dt))
       = tk_inletFlow (tk_state tk) + inletFlowVariation (tk_disturbances tk)
         - outletFlow (fst (Tank_update tk u dt)) - tk_leakage (tk_disturbances tk) \<and>
     level (tk_state (snd (Tank_update tk u dt)))
       = Math_max (Fin 0) (Math_min (tk_maxLevel tk)
           (level (tk_state tk) + netFlow (fst (Tank_update tk u dt)) / tk_tankArea tk * dt)) \<and>
     - mo_maxCurrent mo \<le> Math_max (- mo_maxCurrent mo) (Math_min (mo_maxCurrent mo) u) \<and>
     Math_max (- mo_maxCurrent mo) (Math_min (mo_maxCurrent mo) u) \<le> mo_maxCurrent mo \<and>
     mo_actualOutput (fst (Motor_update mo u dt))
       = Math_max (- mo_maxCurrent mo) (Math_min (mo_maxCurrent mo) u) \<and>
     torque (mo_state (snd (Motor_update mo u dt)))
       = mo_torqueConstant mo * Math_max (- mo_maxCurrent mo) (Math_min (mo_maxCurrent mo) u) \<and>
     angularVelocity (mo_state (snd (Motor_update mo u dt)))
       = angularVelocity (mo_state mo)
         + (torque (mo_state (snd (Motor_update mo u dt)))
            - mo_friction mo * frictionVariation (mo_disturbances mo) * angularVelocity (mo_state mo)
            - loadTorque (mo_disturbances mo)) / mo_inertia mo * dt \<and>
     inletFlow (fst (Pressure_update pr u dt))
       = Math_max (Fin 0) (Math_min (Fin 100) u) / Fin 100 * pr_maxInletFlow pr \<and>
     netFlow (fst (Pressure_update pr u dt))
       = inletFlow (fst (Pressure_update pr u dt))
         - pr_outletCoefficient pr * outletFlowVariation (pr_disturbances pr)
             * Math_sqrt (Math_max (Fin 0) (pressure (pr_state pr) - pr_atmosphericPressure pr))
         - pr_leakage (pr_disturbances pr) \<and>
     mass (pr_state (snd (Pressure_update pr u dt)))
       = Math_max (fl (1/1000))
           (mass (pr_state pr) + netFlow (fst (Pressure_update pr u dt)) * dt)"
proof -
  have r1: "Fin 0 \<le> Math_max (Fin 0) (Math_min (th_maxHeatingPower th) u) \<and>
     Math_max (Fin 0) (Math_min (th_maxHeatingPower th) u) \<le> th_maxHeatingPower th"
    using assms(2,1) by (rule saturate_range)
  have r2: "Fin 0 \<le> Math_max (Fin 0) (Math_min (Fin 100) u) \<and>
     Math_max (Fin 0) (Math_min (Fin 100) u) \<le> Fin 100"
    using assms(1) by (intro saturate_range) simp_all
  have r3: "- mo_maxCurrent mo \<le> Math_max (- mo_maxCurrent mo) (Math_min (mo_maxCurrent mo) u) \<and>
     Math_max (- mo_maxCurrent mo) (Math_min (mo_maxCurrent mo) u) \<le> mo_maxCurrent mo"
    using neg_le_self [OF assms(3)] assms(1) by (rule saturate_range)
  show ?thesis
    using r1 r2 r3
    by (simp add: Temperature_update_def Tank_update_def Motor_update_def Pressure_update_def
        Let_def)
qed

text \<open>
  The theorem at the command \<open>5000\<close> on freshly constructed plants: the heater works
  at its largest power \<open>2000\<close>, the motor at its largest current \<open>10\<close>, and the inlet
  valve is fully open.
\<close>

theorem industrial_plant_inputs_saturated_witness:
  "Fin 5000 \<noteq> NaN \<and>
   Fin 0 \<le> th_maxHeatingPower (TemperatureControlSystem_new None None None None) \<and>
   Fin 0 \<le> mo_maxCurrent (MotorSpeedSystem_new None None None None None) \<and>
   th_actualOutput (fst (Temperature_update (TemperatureControlSystem_new None None None None)
      (Fin 5000) (Fin 1))) = Fin 2000 \<and>
   mo_actualOutput (fst (Motor_update (MotorSpeedSystem_new None None None None None)
      (Fin 5000) (Fin 1))) = Fin 10 \<and>
   inletFlow (fst (Pressure_update (PressureControlSystem_new None None None None)
      (Fin 5000) (Fin 1)))
     = Fin 1 * pr_maxInletFlow (PressureControlSystem_new None None None None)"
proof -
  let ?th = "TemperatureControlSystem_new None None None None"
  let ?mo = "MotorSpeedSystem_new None None None None None"
  have h1: "Fin 5000 \<noteq> NaN" by simp
  have h2: "Fin 0 \<le> th_maxHeatingPower ?th"
    by (simp add: TemperatureControlSystem_new_def or_default_def)
  have h3: "Fin 0 \<le> mo_maxCurrent ?mo"
    by (simp add: MotorSpeedSystem_new_def or_default_def)
  have m: "Math_max (Fin 0) (Math_min (th_maxHeatingPower ?th) (Fin 5000)) = Fin 2000"
      "Math_max (- mo_maxCurrent ?mo) (Math_min (mo_maxCurrent ?mo) (Fin 5000)) = Fin 10"
      "Math_max (Fin 0) (Math_min (Fin 100) (Fin 5000)) / Fin 100 = Fin 1"
    by (simp_all add: TemperatureControlSystem_new_def MotorSpeedSystem_new_def
        or_default_def Math_max_def Math_min_def)
  note sat = industrial_plant_inputs_saturated [OF h1 h2 h3,
      where tk = "TankLevelSystem_new None None None None" and dt = "Fin 1"
        and pr = "PressureControlSystem_new None None None None", unfolded m]
  from sat h1 h2 h3 show ?thesis by blast
qed

text \<open>
  Claim C5 as written fails for the mechanical plant, which has no range for its force
  and applies the command as it is: with inertia \<open>1\<close>, friction \<open>0.2\<close> and load
  \<open>20\<close>, from rest, a force of \<open>10^6\<close> over one time unit gives the velocity
  \<open>999980\<close> and a force of \<open>10^9\<close> gives \<open>999999980\<close>.
\<close>

theorem mechanical_force_counterexample:
  "velocity (me_state (snd (Mechanical_update
      (MechanicalSystem_new (Fin 1) (fl (2/10)) (Fin 20) None None None None None None)
      (Fin 1000000) (Fin 1) (Fin 0)))) = Fin 999980 \<and>
   velocity (me_state (snd (Mechanical_update
      (MechanicalSystem_new (Fin 1) (fl (2/10)) (Fin 20) None None None None None None)
      (Fin 1000000000) (Fin 1) (Fin 0)))) = Fin 999999980"
  by (simp add: plant_defs)

section \<open>The tank: the stored level\<close>

lemma Tank_stored_level:
  "level (tk_state (snd (Tank_update p v dt))) =
     Math_max (Fin 0) (Math_min (tk_maxLevel p)
       (level (tk_state p) +
          (tk_inletFlow (tk_state p) + inletFlowVariation (tk_disturbances p)
             - Math_max (Fin 0) (Math_min (Fin 100) v) / Fin 100 * tk_maxOutletFlow p
                 * Math_sqrt (Math_max (Fin 0) (level (tk_state p)))
             - tk_leakage (tk_disturbances p)) / tk_tankArea p * dt))"
  by (simp add: Tank_update_def Let_def)

lemma Tank_update_processVariable:
  "processVariable (fst (Tank_update p v dt)) = level (tk_state (snd (Tank_update p v dt)))"
  by (simp add: Tank_update_def Let_def)

text \<open>
  A fresh tank with the valve closed and a step of \<open>4096\<close> seconds: the inlet flow
  \<open>0.02\<close> over the area \<open>2\<close> raises the level past the top of the tank, and the level
  stored is \<open>maxLevel = 5\<close>. Each rounding on the way is bounded by powers of two.
\<close>

lemma tank_inlet:
  "fl (nearest (1/50)) = Fin (nearest (nearest (1/50)))"
  "1/64 \<le> nearest (nearest (1/50))" "nearest (nearest (1/50)) \<le> 1/32"
  using fl_between [of "-6" "nearest (1/50)" "-5"] fiftieth(2,3)
  by (simp_all add: power_int_minus)

lemma tank_levelChange:
  "fl (nearest (nearest (1/50)) / 2) = Fin (nearest (nearest (nearest (1/50)) / 2))"
  "1/128 \<le> nearest (nearest (nearest (1/50)) / 2)"
  "nearest (nearest (nearest (1/50)) / 2) \<le> 1/64"
  using fl_between [of "-7" "nearest (nearest (1/50)) / 2" "-6"] tank_inlet(2,3)
  by (simp_all add: power_int_minus)

lemma tank_rise:
  "fl (nearest (nearest (nearest (1/50)) / 2) * 4096)
     = Fin (nearest (nearest (nearest (nearest (1/50)) / 2) * 4096))"
  "32 \<le> nearest (nearest (nearest (nearest (1/50)) / 2) * 4096)"
  "nearest (nearest (nearest (nearest (1/50)) / 2) * 4096) \<le> 64"
  using fl_between [of "5" "nearest (nearest (nearest (1/50)) / 2) * 4096" "6"]
    tank_levelChange(2,3)
  by simp_all

lemma tank_level1:
  "fl (1 + nearest (nearest (nearest (nearest (1/50)) / 2) * 4096))
     = Fin (nearest (1 + nearest (nearest (nearest (nearest (1/50)) / 2) * 4096)))"
  "32 \<le> nearest (1 + nearest (nearest (nearest (nearest (1/50)) / 2) * 4096))"
  using fl_between [of "5" "1 + nearest (nearest (nearest (nearest (1/50)) / 2) * 4096)" "7"]
    tank_rise(2,3)
  by simp_all

lemma tank_fills:
  "level (tk_state (snd (Tank_update (TankLevelSystem_new None None None None)
       (Fin 0) (Fin 4096)))) = Fin 5"
proof -
  have v: "Math_max (Fin 0) (Math_min (Fin 100) (Fin 0)) / Fin 100 = Fin 0"
    by (simp add: Math_max_def Math_min_def)
  have t: "0 < nearest (1/20)" using twentieth(2) by simp
  have out: "Fin 0 * fl (1/20) * Math_sqrt (Math_max (Fin 0) (Fin 1)) = Fin 0"
    using t by (simp add: twentieth(1) Math_max_def)
  have f0: "nearest (1/50) \<noteq> 0" using fiftieth(2) by simp
  have inl: "fl (1/50) + Fin 0 = Fin (nearest (nearest (1/50)))"
    using f0 by (simp add: fiftieth(1) tank_inlet(1))
  have net: "Fin (nearest (nearest (1/50))) - Fin 0 - Fin 0 = Fin (nearest (nearest (1/50)))"
    by (simp add: minus_jsnum_def)
  have f1: "nearest (nearest (1/50)) \<noteq> 0" using tank_inlet(2) by simp
  have lc: "Fin (nearest (nearest (1/50))) / Fin 2
              = Fin (nearest (nearest (nearest (1/50)) / 2))"
    using f1 by (simp add: tank_levelChange(1))
  have f2: "nearest (nearest (nearest (1/50)) / 2) \<noteq> 0" using tank_levelChange(2) by simp
  have rise: "Fin (nearest (nearest (nearest (1/50)) / 2)) * Fin 4096
              = Fin (nearest (nearest (nearest (nearest (1/50)) / 2) * 4096))"
    using f2 by (simp add: tank_rise(1))
  have f3: "1 + nearest (nearest (nearest (nearest (1/50)) / 2) * 4096) \<noteq> 0"
    using tank_rise(2) by simp
  have l1: "Fin 1 + Fin (nearest (nearest (nearest (nearest (1/50)) / 2) * 4096))
              = Fin (nearest (1 + nearest (nearest (nearest (nearest (1/50)) / 2) * 4096)))"
    using f3 by (simp add: tank_level1(1))
  have l2: "Math_max (Fin 0) (Math_min (Fin 5)
              (Fin (nearest (1 + nearest (nearest (nearest (nearest (1/50)) / 2) * 4096)))))
            = Fin 5"
    using tank_level1(2) by (simp add: Math_max_def Math_min_def)
  have p: "tk_maxLevel (TankLevelSystem_new None None None None) = Fin 5"
    "tk_tankArea (TankLevelSystem_new None None None None) = Fin 2"
    "tk_maxOutletFlow (TankLevelSystem_new None None None None) = fl (1/20)"
    "level (tk_state (TankLevelSystem_new None None None None)) = Fin 1"
    "tk_inletFlow (tk_state (TankLevelSystem_new None None None None)) = fl (1/50)"
    "inletFlowVariation (tk_disturbances (TankLevelSystem_new None None None None)) = Fin 0"
    "tk_leakage (tk_disturbances (TankLevelSystem_new None None None None)) = Fin 0"
    by (simp_all add: TankLevelSystem_new_def or_default_def)
  show ?thesis
    unfolding Tank_stored_level p v out inl net lc rise l1 l2 by (rule refl)
qed

text \<open>
  Claim C9, as the code has it. After \<open>TankLevelSystem.update\<close> on a tank with
  \<open>maxLevel \<ge> 0\<close>, for every valve command and every \<open>dt\<close>, the stored level is NaN or
  lies within \<open>[0, maxLevel]\<close>, and it is the process variable of the returned snapshot.
  Nothing is assumed of the tank's other numbers: the saturation after the integration
  bounds every level that is a number.
\<close>

theorem Tank_update_level_within_tank:
  assumes "Fin 0 \<le> tk_maxLevel p"
  shows "(level (tk_state (snd (Tank_update p valveOpening dt))) = NaN \<or>
          (Fin 0 \<le> level (tk_state (snd (Tank_update p valveOpening dt))) \<and>
           level (tk_state (snd (Tank_update p valveOpening dt))) \<le> tk_maxLevel p)) \<and>
         processVariable (fst (Tank_update p valveOpening dt))
           = level (tk_state (snd (Tank_update p valveOpening dt)))"
  unfolding Tank_update_processVariable
  unfolding Tank_stored_level
  using saturate_NaN_or_range [OF assms] by simp

text \<open>
  The theorem on the fresh tank filled over \<open>4096\<close> seconds: the stored level and the
  process variable are \<open>5\<close>.
\<close>

theorem Tank_update_level_within_tank_witness:
  "Fin 0 \<le> tk_maxLevel (TankLevelSystem_new None None None None) \<and>
   level (tk_state (snd (Tank_update (TankLevelSystem_new None None None None)
       (Fin 0) (Fin 4096)))) = Fin 5 \<and>
   Fin 0 \<le> level (tk_state (snd (Tank_update (TankLevelSystem_new None None None None)
       (Fin 0) (Fin 4096)))) \<and>
   level (tk_state (snd (Tank_update (TankLevelSystem_new None None None None)
       (Fin 0) (Fin 4096)))) \<le> tk_maxLevel (TankLevelSystem_new None None None None) \<and>
   processVariable (fst (Tank_update (TankLevelSystem_new None None None None)
       (Fin 0) (Fin 4096))) = Fin 5"
proof -
  let ?p = "TankLevelSystem_new None None None None"
  have h: "Fin 0 \<le> tk_maxLevel ?p"
    by (simp add: TankLevelSystem_new_def or_default_def)
  note t = Tank_update_level_within_tank [OF h, where valveOpening = "Fin 0" and dt = "Fin 4096"]
  have n: "level (tk_state (snd (Tank_update ?p (Fin 0) (Fin 4096)))) \<noteq> NaN"
    by (simp add: tank_fills)
  from t n h tank_fills show ?thesis by auto
qed

text \<open>
  Claim C9 as written, for any input, fails at a valve command that is NaN, which is
  what the advanced controller returns after the tick of claim C3: the saturation of the
  command, the outlet flow and the integrated level are NaN, \<open>Math.min\<close> and
  \<open>Math.max\<close> pass it through, and the fresh tank (\<open>maxLevel = 5\<close>) stores and
  returns a level that is NaN, outside \<open>[0, 5]\<close>.
\<close>

theorem Tank_update_level_counterexample:
  "Fin 0 \<le> tk_maxLevel (TankLevelSystem_new None None None None) \<and>
   level (tk_state (snd (Tank_update (TankLevelSystem_new None None None None) NaN (Fin 1)))) = NaN \<and>
   processVariable (fst (Tank_update (TankLevelSystem_new None None None None) NaN (Fin 1))) = NaN \<and>
   \<not> Fin 0 \<le> NaN"
  by (simp add: plant_defs)

section \<open>Plant reset\<close>

text \<open>
  Claim C6 on the mechanical plant. Constructed at position \<open>0\<close> and stepped once with
  force \<open>100\<close> over one time unit, the plant is at position \<open>80\<close>; \<open>reset\<close> zeroes the
  velocity and leaves the position at \<open>80\<close>.
\<close>

theorem Mechanical_reset_failing_input:
  "position (me_state
      (MechanicalSystem_new (Fin 1) (fl (2/10)) (Fin 20) None None None None None None)) = Fin 0 \<and>
   position (me_state (snd (Mechanical_update
      (MechanicalSystem_new (Fin 1) (fl (2/10)) (Fin 20) None None None None None None)
      (Fin 100) (Fin 1) (Fin 0)))) = Fin 80 \<and>
   position (me_state (Mechanical_reset (snd (Mechanical_update
      (MechanicalSystem_new (Fin 1) (fl (2/10)) (Fin 20) None None None None None None)
      (Fin 100) (Fin 1) (Fin 0))))) = Fin 80 \<and>
   velocity (me_state (Mechanical_reset (snd (Mechanical_update
      (MechanicalSystem_new (Fin 1) (fl (2/10)) (Fin 20) None None None None None None)
      (Fin 100) (Fin 1) (Fin 0))))) = Fin 0"
  by (simp add: plant_defs)

text \<open>
The four industrial plants are back in their constructed state after \<open>reset\<close>.
\<close>

lemma industrial_reset_restores_constructed:
  "Temperature_reset (snd (Temperature_update (TemperatureControlSystem_new a b c d) u dt))
     = TemperatureControlSystem_new a b c d"
  "Tank_reset (snd (Tank_update (TankLevelSystem_new a b c d) u dt)) = TankLevelSystem_new a b c d"
  "Motor_reset (snd (Motor_update (MotorSpeedSystem_new a b c d e) u dt))
     = MotorSpeedSystem_new a b c d e"
  "Pressure_reset (snd (Pressure_update (PressureControlSystem_new a b c d) u dt))
     = PressureControlSystem_new a b c d"
  by (simp_all add: Temperature_reset_def Temperature_update_def TemperatureControlSystem_new_def
      Tank_reset_def Tank_update_def TankLevelSystem_new_def
      Motor_reset_def Motor_update_def MotorSpeedSystem_new_def
      Pressure_reset_def Pressure_update_def PressureControlSystem_new_def Let_def)

section \<open>The basic controller: the integral term\<close>

text \<open>
  On a tick that passes the test of \<open>dt\<close> the last assignment to the integral term
  is a saturation at the output limits, which the tick does not change.
\<close>

lemma PID_update_integralTerm:
  assumes "\<not> deltaTime \<le> Fin 0"
  shows "\<exists>x. p_integralTerm (snd (PID_update c sp pv deltaTime)) =
           Math_max (p_outputMin c) (Math_min (p_outputMax c) x)"
  using assms by (simp add: PID_update_def Let_def) blast

lemma PID_update_limits:
  "p_outputMin (snd (PID_update c sp pv deltaTime)) = p_outputMin c \<and>
   p_outputMax (snd (PID_update c sp pv deltaTime)) = p_outputMax c"
  by (simp add: PID_update_def Let_def)

text \<open>
  Claim C10, as the code has it. After a call of the basic controller's \<open>update\<close> that
  passes the test of the time step, with ordered limits \<open>outputMin \<le> outputMax\<close>, the
  stored integral term is NaN or lies within \<open>[outputMin, outputMax]\<close>. Nothing is
  assumed of the gains, the state or the arguments.
\<close>

theorem PID_update_integral_within_limits:
  assumes "\<not> deltaTime \<le> Fin 0" and "p_outputMin c \<le> p_outputMax c"
  shows "p_integralTerm (snd (PID_update c sp pv deltaTime)) = NaN \<or>
         (p_outputMin (snd (PID_update c sp pv deltaTime))
            \<le> p_integralTerm (snd (PID_update c sp pv deltaTime)) \<and>
          p_integralTerm (snd (PID_update c sp pv deltaTime))
            \<le> p_outputMax (snd (PID_update c sp pv deltaTime)))"
proof -
  obtain x where "p_integralTerm (snd (PID_update c sp pv deltaTime)) =
           Math_max (p_outputMin c) (Math_min (p_outputMax c) x)"
    using PID_update_integralTerm [OF assms(1)] by blast
  then show ?thesis
    using saturate_NaN_or_range [OF assms(2), of x] by (simp add: PID_update_limits)
qed

text \<open>
  The theorem on a controller with \<open>Kp = Ki = 1\<close>, \<open>Kd = 0\<close> and the default limits:
  after \<open>update(200, 0, 1)\<close> the integral term is \<open>-100\<close>.
\<close>

theorem PID_update_integral_within_limits_witness:
  "\<not> Fin 1 \<le> Fin 0 \<and>
   p_outputMin (PIDController_new (Fin 1) (Fin 1) (Fin 0)
       \<lparr>po_outputMin = None, po_outputMax = None, po_alpha = None\<rparr>)
     \<le> p_outputMax (PIDController_new (Fin 1) (Fin 1) (Fin 0)
       \<lparr>po_outputMin = None, po_outputMax = None, po_alpha = None\<rparr>) \<and>
   p_integralTerm (snd (PID_update (PIDController_new (Fin 1) (Fin 1) (Fin 0)
       \<lparr>po_outputMin = None, po_outputMax = None, po_alpha = None\<rparr>)
       (Fin 200) (Fin 0) (Fin 1))) = Fin (- 100) \<and>
   p_outputMin (snd (PID_update (PIDController_new (Fin 1) (Fin 1) (Fin 0)
       \<lparr>po_outputMin = None, po_outputMax = None, po_alpha = None\<rparr>)
       (Fin 200) (Fin 0) (Fin 1)))
     \<le> p_integralTerm (snd (PID_update (PIDController_new (Fin 1) (Fin 1) (Fin 0)
       \<lparr>po_outputMin = None, po_outputMax = None, po_alpha = None\<rparr>)
       (Fin 200) (Fin 0) (Fin 1))) \<and>
   p_integralTerm (snd (PID_update (PIDController_new (Fin 1) (Fin 1) (Fin 0)
       \<lparr>po_outputMin = None, po_outputMax = None, po_alpha = None\<rparr>)
       (Fin 200) (Fin 0) (Fin 1)))
     \<le> p_outputMax (snd (PID_update (PIDController_new (Fin 1) (Fin 1) (Fin 0)
       \<lparr>po_outputMin = None, po_outputMax = None, po_alpha = None\<rparr>)
       (Fin 200) (Fin 0) (Fin 1)))"
proof -
  let ?b = "PIDController_new (Fin 1) (Fin 1) (Fin 0)
          \<lparr>po_outputMin = None, po_outputMax = None, po_alpha = None\<rparr>"
  have h1: "\<not> Fin 1 \<le> Fin 0" by simp
  have h2: "p_outputMin ?b \<le> p_outputMax ?b"
    by (simp add: PIDController_new_def nullish_default_def)
  have i: "p_integralTerm (snd (PID_update ?b (Fin 200) (Fin 0) (Fin 1))) = Fin (- 100)"
    by (simp add: PIDController_new_def PID_update_def controller_defs)
  have n: "p_integralTerm (snd (PID_update ?b (Fin 200) (Fin 0) (Fin 1))) \<noteq> NaN"
    by (simp add: i)
  note t = PID_update_integral_within_limits [OF h1 h2, of "Fin 200" "Fin 0"]
  from t n h1 h2 i show ?thesis by blast
qed

text \<open>
  Claim C10 as written fails when the sum overflows. With \<open>Kp = Ki = 4\<close>, \<open>Kd = 0\<close>
  and the default limits, the call \<open>update(2^1023, 0, 1)\<close> with \<open>dt = 1 > 0\<close> computes
  the proportional term and the integral increment \<open>4 * 2^1023 = Infinity\<close>; the output
  saturates at \<open>100\<close>, and the integral term becomes
  \<open>0 + (Infinity + (100 - Infinity)) = NaN\<close>, which the final saturation passes through.
\<close>

theorem PID_update_integral_counterexample:
  "\<not> Fin 1 \<le> Fin 0 \<and>
   p_outputMin (PIDController_new (Fin 4) (Fin 4) (Fin 0)
       \<lparr>po_outputMin = None, po_outputMax = None, po_alpha = None\<rparr>) = Fin (-100) \<and>
   p_outputMax (PIDController_new (Fin 4) (Fin 4) (Fin 0)
       \<lparr>po_outputMin = None, po_outputMax = None, po_alpha = None\<rparr>) = Fin 100 \<and>
   fst (PID_update (PIDController_new (Fin 4) (Fin 4) (Fin 0)
       \<lparr>po_outputMin = None, po_outputMax = None, po_alpha = None\<rparr>)
       (Fin (2 ^ 1023)) (Fin 0) (Fin 1)) = Fin 100 \<and>
   p_integralTerm (snd (PID_update (PIDController_new (Fin 4) (Fin 4) (Fin 0)
       \<lparr>po_outputMin = None, po_outputMax = None, po_alpha = None\<rparr>)
       (Fin (2 ^ 1023)) (Fin 0) (Fin 1))) = NaN \<and>
   \<not> Fin (-100) \<le> NaN"
proof -
  have "(2::real) ^ 1024 - 2 ^ 970 \<le> 4 * 2 ^ 1023" by simp
  then have hp: "fl (4 * 2 ^ 1023) = PInf" by (rule fl_overflow)
  show ?thesis
    unfolding PIDController_new_def PID_update_def nullish_default_def Let_def
    by (simp add: hp tenth(1) one_minus_tenth(1) Math_max_def Math_min_def minus_jsnum_def
        del: power_numeral)
qed

section \<open>The auto-tuner: identifying the oscillation\<close>

lemma increaseKp_keeps:
  "isAutoTuning (increaseKp app t) = isAutoTuning app \<and>
   autoTune (increaseKp app t) = autoTune app"
  by (simp add: increaseKp_def Let_def)

lemma finishAutoTune_autoTune:
  "autoTune (finishAutoTune app) = autoTune app \<and> \<not> isAutoTuning (finishAutoTune app)"
  by (simp add: finishAutoTune_def Let_def)

lemma runAutoTuneLogic_few_peaks:
  assumes "length (peaks (autoTune app)) < 4"
  shows "isAutoTuning (runAutoTuneLogic app pv t) = isAutoTuning app"
  using assms by (simp add: runAutoTuneLogic_def Let_def increaseKp_keeps)

lemma runAutoTuneLogic_stable:
  assumes "3 \<le> length (pvHistory app)"
    and "pv < pvHistory app ! (length (pvHistory app) - 2)"
    and "pvHistory app ! (length (pvHistory app) - 2) > pvHistory app ! (length (pvHistory app) - 3)"
    and "pvHistory app ! (length (pvHistory app) - 2) > peak_value (lastPeak (autoTune app))"
    and "peaks (autoTune app) = [p0, p1, p2, p3]"
    and "\<bar>pvHistory app ! (length (pvHistory app) - 2) - peak_value p1\<bar> < setpoint app * fl (5/100)"
  shows "runAutoTuneLogic app pv t =
           finishAutoTune (app\<lparr> autoTune := (autoTune app)\<lparr>
              lastPeak := \<lparr> peak_value = pvHistory app ! (length (pvHistory app) - 2), peak_time = t \<rparr>,
              peaks := [p1, p2, p3,
                        \<lparr> peak_value = pvHistory app ! (length (pvHistory app) - 2), peak_time = t \<rparr>],
              ultimateGain := Kp (pid app),
              oscillationPeriod := (t - peak_time p1) / Fin 3 \<rparr> \<rparr>)"
  using assms by (simp add: runAutoTuneLogic_def Let_def)

lemma runAutoTuneLogic_unstable:
  assumes "3 \<le> length (pvHistory app)"
    and "pv < pvHistory app ! (length (pvHistory app) - 2)"
    and "pvHistory app ! (length (pvHistory app) - 2) > pvHistory app ! (length (pvHistory app) - 3)"
    and "pvHistory app ! (length (pvHistory app) - 2) > peak_value (lastPeak (autoTune app))"
    and "peaks (autoTune app) = [p0, p1, p2, p3]"
    and "\<not> \<bar>pvHistory app ! (length (pvHistory app) - 2) - peak_value p1\<bar> < setpoint app * fl (5/100)"
  shows "isAutoTuning (runAutoTuneLogic app pv t) = isAutoTuning app \<and>
         peaks (autoTune (runAutoTuneLogic app pv t)) =
           [p1, p2, p3, \<lparr> peak_value = pvHistory app ! (length (pvHistory app) - 2), peak_time = t \<rparr>]"
  using assms by (simp add: runAutoTuneLogic_def Let_def increaseKp_keeps)

text \<open>
  The mean of the three intervals between four peak times is a third of the span from
  the first to the last, which is the form the code computes.
\<close>

lemma mean_of_three_intervals:
  "((t2 - t1) + (t3 - t2) + (t4 - t3)) / 3 = (t4 - t1) / (3::real)"
  by simp

text \<open>
  Five percent of the setpoint \<open>200\<close>, computed with the rounded literal \<open>0.05\<close>,
  is a finite number not below \<open>4\<close>.
\<close>

lemma setpoint_band:
  "Fin 200 * fl (1/20) = Fin (nearest (200 * nearest (1/20)))" "4 \<le> nearest (200 * nearest (1/20))"
proof -
  have b: "fl (200 * nearest (1/20)) = Fin (nearest (200 * nearest (1/20))) \<and>
        2 powi 2 \<le> nearest (200 * nearest (1/20)) \<and> nearest (200 * nearest (1/20)) \<le> 2 powi 4"
    using twentieth(2,3) by (intro fl_between) simp_all
  have nz: "nearest (1/20) \<noteq> 0" using twentieth(2) by auto
  show "Fin 200 * fl (1/20) = Fin (nearest (200 * nearest (1/20)))"
    using b nz by (simp add: twentieth(1))
  show "4 \<le> nearest (200 * nearest (1/20))"
    using b by simp
qed

text \<open>
  Claim C7. The tuner holds four recorded peaks and a fifth is recorded now: the oldest
  is dropped, and the first of the remaining four is compared with the new one. When
  their amplitudes differ by less than 5% of the setpoint, the ultimate gain is the
  controller's current \<open>Kp\<close>, the ultimate period is the span from the first to the
  last of those four peaks divided by three, that is the mean of the three intervals
  between them, and the tuner leaves the search (\<open>finishAutoTune\<close> runs).
\<close>

theorem runAutoTuneLogic_identifies_oscillation:
  assumes "3 \<le> length (pvHistory app)"
    and "pv < pvHistory app ! (length (pvHistory app) - 2)"
    and "pvHistory app ! (length (pvHistory app) - 2) > pvHistory app ! (length (pvHistory app) - 3)"
    and "pvHistory app ! (length (pvHistory app) - 2) > peak_value (lastPeak (autoTune app))"
    and "peaks (autoTune app) = [p0, p1, p2, p3]"
    and "\<bar>pvHistory app ! (length (pvHistory app) - 2) - peak_value p1\<bar> < setpoint app * fl (5/100)"
  shows "ultimateGain (autoTune (runAutoTuneLogic app pv t)) = Kp (pid app) \<and>
         oscillationPeriod (autoTune (runAutoTuneLogic app pv t)) = (t - peak_time p1) / Fin 3 \<and>
         peaks (autoTune (runAutoTuneLogic app pv t)) =
           [p1, p2, p3, \<lparr> peak_value = pvHistory app ! (length (pvHistory app) - 2), peak_time = t \<rparr>] \<and>
         \<not> isAutoTuning (runAutoTuneLogic app pv t)"
  unfolding runAutoTuneLogic_stable [OF assms(1-6)]
  by (simp add: finishAutoTune_autoTune)

text \<open>
  The theorem on a tuner at setpoint \<open>200\<close> with peaks at times \<open>1, 2, 4, 6\<close> and a
  new peak of amplitude \<open>10\<close> recorded at time \<open>8\<close>: \<open>Ku = 3\<close> and \<open>Tu = (8 - 2)/3 = 2\<close>.
\<close>

theorem runAutoTuneLogic_identifies_oscillation_witness:
  "3 \<le> length (pvHistory tuneApp) \<and>
   Fin 4 < pvHistory tuneApp ! (length (pvHistory tuneApp) - 2) \<and>
   \<bar>pvHistory tuneApp ! (length (pvHistory tuneApp) - 2) - Fin 7\<bar>
      < setpoint tuneApp * fl (5/100) \<and>
   isAutoTuning tuneApp \<and>
   ultimateGain (autoTune (runAutoTuneLogic tuneApp (Fin 4) (Fin 8))) = Fin 3 \<and>
   oscillationPeriod (autoTune (runAutoTuneLogic tuneApp (Fin 4) (Fin 8))) = Fin 2 \<and>
   \<not> isAutoTuning (runAutoTuneLogic tuneApp (Fin 4) (Fin 8))"
proof -
  have h1: "3 \<le> length (pvHistory tuneApp)"
    by (simp add: tuneApp_def)
  have h2: "Fin 4 < pvHistory tuneApp ! (length (pvHistory tuneApp) - 2)"
    by (simp add: tuneApp_def)
  have h3: "pvHistory tuneApp ! (length (pvHistory tuneApp) - 2)
              > pvHistory tuneApp ! (length (pvHistory tuneApp) - 3)"
    by (simp add: tuneApp_def)
  have h4: "pvHistory tuneApp ! (length (pvHistory tuneApp) - 2)
              > peak_value (lastPeak (autoTune tuneApp))"
    by (simp add: tuneApp_def)
  have h5: "peaks (autoTune tuneApp) =
      [\<lparr> peak_value = Fin 6, peak_time = Fin 1 \<rparr>, \<lparr> peak_value = Fin 7, peak_time = Fin 2 \<rparr>,
       \<lparr> peak_value = Fin 8, peak_time = Fin 4 \<rparr>, \<lparr> peak_value = Fin 9, peak_time = Fin 6 \<rparr>]"
    by (simp add: tuneApp_def)
  have h6: "\<bar>pvHistory tuneApp ! (length (pvHistory tuneApp) - 2)
              - peak_value \<lparr> peak_value = Fin 7, peak_time = Fin 2 \<rparr>\<bar>
            < setpoint tuneApp * fl (5/100)"
    using setpoint_band(2) by (simp add: tuneApp_def setpoint_band(1) minus_jsnum_def)
  have k: "Kp (pid tuneApp) = Fin 3" "isAutoTuning tuneApp"
    by (simp_all add: tuneApp_def setGains_def)
  have p: "(Fin 8 - Fin 2) / Fin 3 = Fin 2"
    by (simp add: minus_jsnum_def)
  note t = runAutoTuneLogic_identifies_oscillation [OF h1 h2 h3 h4 h5 h6, where t = "Fin 8"]
  from t h1 h2 h6 k p show ?thesis by simp
qed

end
